theory Spec2Isabelle
  imports Complex_Main
begin

section \<open>Tensors, parameters and errors\<close>

text \<open>
  The agents of \<^verbatim>\<open>sac_torch.py\<close> and \<^verbatim>\<open>td3_torch.py\<close> are embedded over the reals.
  A tensor is the list of its entries; the parameters of a network are the list of its
  parameter tensors (\<^verbatim>\<open>net.parameters()\<close>) or, where the source goes through
  \<^verbatim>\<open>state_dict()\<close>, the association list from parameter names to tensors.
  Online and target networks are built by the same constructor with the same arguments
  (\<^verbatim>\<open>sac_torch.py\<close> 79-84, \<^verbatim>\<open>td3_torch.py\<close> 59-78), so the tensors combined
  entry by entry have the same shape; the theorems state this as a hypothesis.
\<close>

type_synonym tensor = "real list"
type_synonym params = "tensor list"
type_synonym state_dict = "(string \<times> tensor) list"
type_synonym optim_state = "real list"

datatype py_error = IndexError | KeyError | ZeroDivisionError

definition mean :: "real list \<Rightarrow> real" where
  \<comment> \<open>\<^verbatim>\<open>tensor.mean()\<close> over a batch, which is not empty\<close>
  "mean xs = sum_list xs / real (length xs)"

definition clamp :: "real \<Rightarrow> real \<Rightarrow> real \<Rightarrow> real" where
  \<comment> \<open>\<^verbatim>\<open>torch.clamp(x, lo, hi)\<close> is \<^verbatim>\<open>min(max(x, lo), hi)\<close>\<close>
  "clamp x lo hi = min (max x lo) hi"

section \<open>Target network soft update\<close>

definition polyak :: "real \<Rightarrow> tensor \<Rightarrow> tensor \<Rightarrow> tensor" where
  \<comment> \<open>\<^verbatim>\<open>tau * param + (1 - tau) * target_param\<close>, entry by entry\<close>
  "polyak tau param target_param = map2 (\<lambda>p t. tau * p + (1 - tau) * t) param target_param"

fun soft_update :: "real \<Rightarrow> params \<Rightarrow> params \<Rightarrow> params" where
  \<comment> \<open>\<^verbatim>\<open>sac_torch.py\<close> 221-222: the loop over \<^verbatim>\<open>zip(critic.parameters(),
      critic_target.parameters())\<close>; it writes each target tensor in place, and a target
      tensor the zip does not reach keeps its value\<close>
  "soft_update tau (param # ps) (target_param # ts) =
     polyak tau param target_param # soft_update tau ps ts"
| "soft_update tau ps ts = ts"

fun mix_state_dict :: "real \<Rightarrow> state_dict \<Rightarrow> state_dict \<Rightarrow> py_error + state_dict" where
  \<comment> \<open>\<^verbatim>\<open>td3_torch.py\<close> 211-218: \<^verbatim>\<open>for name in d: d[name] = tau * d[name].clone()
      + (1 - tau) * target_d[name].clone()\<close>; a name the target lacks raises KeyError\<close>
  "mix_state_dict tau [] target_d = Inr []"
| "mix_state_dict tau ((name, p) # d) target_d =
     (case map_of target_d name of
        None \<Rightarrow> Inl KeyError
      | Some t \<Rightarrow>
          (case mix_state_dict tau d target_d of
             Inl e \<Rightarrow> Inl e
           | Inr d' \<Rightarrow> Inr ((name, polyak tau p t) # d')))"

definition same_shape :: "params \<Rightarrow> params \<Rightarrow> bool" where
  "same_shape online target = list_all2 (\<lambda>p t. length p = length t) online target"

definition same_architecture :: "state_dict \<Rightarrow> state_dict \<Rightarrow> bool" where
  "same_architecture online target \<longleftrightarrow>
     map fst online = map fst target \<and> distinct (map fst target) \<and>
     same_shape (map snd online) (map snd target)"

section \<open>The bounded stochastic policy of SAC\<close>

definition normal_log_prob :: "real \<Rightarrow> real \<Rightarrow> real \<Rightarrow> real" where
  \<comment> \<open>\<^verbatim>\<open>torch.distributions.Normal(loc, scale).log_prob(value)\<close>\<close>
  "normal_log_prob loc scale v =
     - ((v - loc)\<^sup>2) / (2 * scale\<^sup>2) - ln scale - ln (sqrt (2 * pi))"

definition rsample :: "real list \<Rightarrow> real list \<Rightarrow> real list \<Rightarrow> real list" where
  \<comment> \<open>\<^verbatim>\<open>Normal(mean, std).rsample()\<close> is \<^verbatim>\<open>loc + eps * scale\<close> for a standard normal
      draw \<^verbatim>\<open>eps\<close>, which is an explicit argument here\<close>
  "rsample mu std eps = map (\<lambda>(m, s, e). m + e * s) (zip mu (zip std eps))"

definition sample_action :: "real \<Rightarrow> real \<Rightarrow> real list \<times> real list \<Rightarrow> real list \<Rightarrow> real list \<times> real" where
  \<comment> \<open>\<^verbatim>\<open>sac_torch.py\<close> 108-119, repeated at 165-172 and 190-197: from the actor's
      \<^verbatim>\<open>(mean, std)\<close> to the scaled action and the summed log-probability\<close>
  "sample_action a_scale a_bias ms eps =
     (let mu = fst ms; std = snd ms;
          x_t = rsample mu std eps;
          y_t = map tanh x_t;
          scaled_action = map (\<lambda>y. y * a_scale + a_bias) y_t;
          log_prob = map (\<lambda>(m, s, x). normal_log_prob m s x) (zip mu (zip std x_t));
          log_prob = map2 (\<lambda>lp y. lp - ln (a_scale * (1 - y\<^sup>2) + 1 / 10 ^ 6)) log_prob y_t
      in (scaled_action, sum_list log_prob))"

definition closed_form_log_prob :: "real \<Rightarrow> real list \<Rightarrow> real list \<Rightarrow> real list \<Rightarrow> real" where
  \<comment> \<open>the specification's formula: the Normal log-density of the pre-squash sample minus
      the sum over the action dimensions of the log of the stabilised Jacobian term\<close>
  "closed_form_log_prob a_scale mu std x =
     sum_list (map (\<lambda>d. normal_log_prob (mu ! d) (std ! d) (x ! d)) [0..<length x])
     - sum_list (map (\<lambda>d. ln (a_scale * (1 - (tanh (x ! d))\<^sup>2) + 1 / 10 ^ 6)) [0..<length x])"

section \<open>Replay buffer and sampled transitions\<close>

record transition =
  state :: "real list"
  action :: "real list"
  reward :: real
  next_state :: "real list"
  done_flag :: bool

text \<open>
  Modelled from the spec: the replay buffer classes (\<^verbatim>\<open>sac_buffer.py\<close>, \<^verbatim>\<open>buffer.py\<close>) are
  not among the source files. The specification gives the buffer a fixed capacity and a
  write counter that never resets; the number of valid entries is the smaller of the two.
  The rows returned by \<^verbatim>\<open>sample_buffer(batch_size)\<close> are an argument of the update
  functions below (\<^verbatim>\<open>batch_size\<close> rows), as are the random draws.
\<close>

record replay_buffer =
  mem_size :: int
  mem_counter :: int

definition len_memory :: "replay_buffer \<Rightarrow> int" where
  "len_memory m = min (mem_counter m) (mem_size m)"

section \<open>The SAC agent\<close>

text \<open>
  The networks and optimizers are external: \<^verbatim>\<open>forward\<close> is a function of the
  parameters and the input, and one optimizer step (\<^verbatim>\<open>zero_grad\<close>, \<^verbatim>\<open>backward\<close>, the
  gradient clipping where the source has it, \<^verbatim>\<open>step\<close>) is a function of the loss, taken
  as a function of the parameters it differentiates, and of the parameters and the
  optimizer's state. A quantity the source detaches or computes under \<^verbatim>\<open>no_grad\<close> is
  a constant of that loss function.
\<close>

record sac_networks =
  actor_forward :: "params \<Rightarrow> real list \<Rightarrow> real list \<times> real list"
  critic_forward :: "params \<Rightarrow> real list \<Rightarrow> real list \<Rightarrow> real \<times> real"
  critic_optimizer_step :: "(params \<Rightarrow> real) \<Rightarrow> params \<times> optim_state \<Rightarrow> params \<times> optim_state"
  actor_optimizer_step :: "(params \<Rightarrow> real) \<Rightarrow> params \<times> optim_state \<Rightarrow> params \<times> optim_state"
  alpha_optimizer_step :: "(real \<Rightarrow> real) \<Rightarrow> real \<times> optim_state \<Rightarrow> real \<times> optim_state"

text \<open>
  \<^verbatim>\<open>alpha_optimizer\<close> is built on the tensor that \<^verbatim>\<open>log_alpha\<close> names in the constructor
  (line 70) and steps that tensor ever after. \<^verbatim>\<open>load_models\<close> binds \<^verbatim>\<open>self.log_alpha\<close>
  to the loaded tensor (line 242) and leaves the optimizer as it is. The field
  \<^verbatim>\<open>optimizer_log_alpha\<close> is \<^verbatim>\<open>None\<close> while \<^verbatim>\<open>self.log_alpha\<close> is the optimizer's tensor, and
  holds the value of the optimizer's own tensor once \<^verbatim>\<open>self.log_alpha\<close> names another one.
\<close>

record sac_agent =
  gamma :: real
  tau :: real
  batch_size :: int
  target_entropy :: real
  log_alpha :: real
  alpha_optimizer :: optim_state
  optimizer_log_alpha :: "real option"
  alpha :: real
  actor :: params
  actor_optimizer :: optim_state
  critic :: params
  critic_optimizer :: optim_state
  critic_target :: params
  memory :: replay_buffer
  action_scale :: real
  action_bias :: real

definition SACAgent_init ::
  "int \<Rightarrow> real \<Rightarrow> real \<Rightarrow> real \<Rightarrow> int \<Rightarrow> int \<Rightarrow> real \<Rightarrow> real \<Rightarrow> real option
     \<Rightarrow> params \<Rightarrow> params \<Rightarrow> sac_agent" where
  \<comment> \<open>\<^verbatim>\<open>sac_torch.py\<close> 57-91; the freshly initialised actor and critic weights are
      arguments, the target critic loads the critic's \<^verbatim>\<open>state_dict\<close>\<close>
  "SACAgent_init n_actions alpha_arg gamma_arg tau_arg max_size batch_size_arg
       action_scale_arg action_bias_arg target_entropy_arg actor_init critic_init =
     (let target_entropy_arg =
            (case target_entropy_arg of None \<Rightarrow> - real_of_int n_actions | Some t \<Rightarrow> t)
      in \<lparr>gamma = gamma_arg, tau = tau_arg, batch_size = batch_size_arg,
          target_entropy = target_entropy_arg,
          log_alpha = 0, alpha_optimizer = [], optimizer_log_alpha = None,
          alpha = alpha_arg,
          actor = actor_init, actor_optimizer = [],
          critic = critic_init, critic_optimizer = [],
          critic_target = critic_init,
          memory = \<lparr>mem_size = max_size, mem_counter = 0\<rparr>,
          action_scale = action_scale_arg, action_bias = action_bias_arg\<rparr>)"

definition choose_action :: "sac_networks \<Rightarrow> sac_agent \<Rightarrow> real list \<Rightarrow> real list \<Rightarrow> real list \<times> real" where
  \<comment> \<open>\<^verbatim>\<open>sac_torch.py\<close> 106-120\<close>
  "choose_action N ag st eps =
     sample_action (action_scale ag) (action_bias ag) (actor_forward N (actor ag) st) eps"

definition next_action :: "sac_networks \<Rightarrow> sac_agent \<Rightarrow> transition \<Rightarrow> real list \<Rightarrow> real list \<times> real" where
  \<comment> \<open>\<^verbatim>\<open>sac_torch.py\<close> 164-172: the action at \<^verbatim>\<open>states_\<close> and its log-probability\<close>
  "next_action N ag row eps =
     sample_action (action_scale ag) (action_bias ag) (actor_forward N (actor ag) (next_state row)) eps"

definition target_Q_row :: "sac_networks \<Rightarrow> sac_agent \<Rightarrow> transition \<Rightarrow> real list \<Rightarrow> real" where
  \<comment> \<open>\<^verbatim>\<open>sac_torch.py\<close> 174-176, one batch row; \<^verbatim>\<open>dones\<close> holds 1.0 for a terminal row\<close>
  "target_Q_row N ag row eps =
     (let (scaled_actions, log_prob) = next_action N ag row eps;
          (target_Q1, target_Q2) = critic_forward N (critic_target ag) (next_state row) scaled_actions;
          target_Q = min target_Q1 target_Q2 - exp (log_alpha ag) * log_prob
      in reward row + (1 - of_bool (done_flag row)) * gamma ag * target_Q)"

definition critic_loss :: "sac_networks \<Rightarrow> transition list \<Rightarrow> real list \<Rightarrow> params \<Rightarrow> real" where
  \<comment> \<open>\<^verbatim>\<open>sac_torch.py\<close> 178-179\<close>
  "critic_loss N batch target_Q theta =
     mean (map2 (\<lambda>row y. (fst (critic_forward N theta (state row) (action row)) - y)\<^sup>2) batch target_Q)
     + mean (map2 (\<lambda>row y. (snd (critic_forward N theta (state row) (action row)) - y)\<^sup>2) batch target_Q)"

definition update_critic :: "sac_networks \<Rightarrow> sac_agent \<Rightarrow> transition list \<Rightarrow> real list list \<Rightarrow> sac_agent" where
  \<comment> \<open>\<^verbatim>\<open>sac_torch.py\<close> 162-185\<close>
  "update_critic N ag batch eps_next =
     (let target_Q = map2 (target_Q_row N ag) batch eps_next;
          (c, opt) = critic_optimizer_step N (critic_loss N batch target_Q) (critic ag, critic_optimizer ag)
      in ag\<lparr>critic := c, critic_optimizer := opt\<rparr>)"

definition new_action :: "sac_networks \<Rightarrow> sac_agent \<Rightarrow> params \<Rightarrow> transition \<Rightarrow> real list \<Rightarrow> real list \<times> real" where
  \<comment> \<open>\<^verbatim>\<open>sac_torch.py\<close> 189-197: the fresh action at \<^verbatim>\<open>states\<close> and its log-probability,
      as a function of the actor's parameters\<close>
  "new_action N ag theta row eps =
     sample_action (action_scale ag) (action_bias ag) (actor_forward N theta (state row)) eps"

definition actor_loss :: "sac_networks \<Rightarrow> sac_agent \<Rightarrow> transition list \<Rightarrow> real list list \<Rightarrow> params \<Rightarrow> real" where
  \<comment> \<open>\<^verbatim>\<open>sac_torch.py\<close> 199-202\<close>
  "actor_loss N ag batch eps_new theta =
     mean (map2 (\<lambda>row eps.
       let (scaled_actions, log_prob) = new_action N ag theta row eps;
           (Q1_new, Q2_new) = critic_forward N (critic ag) (state row) scaled_actions;
           Q_new = min Q1_new Q2_new
       in exp (log_alpha ag) * log_prob - Q_new) batch eps_new)"

definition update_actor :: "sac_networks \<Rightarrow> sac_agent \<Rightarrow> transition list \<Rightarrow> real list list \<Rightarrow> sac_agent" where
  \<comment> \<open>\<^verbatim>\<open>sac_torch.py\<close> 199-207\<close>
  "update_actor N ag batch eps_new =
     (let (a, opt) = actor_optimizer_step N (actor_loss N ag batch eps_new) (actor ag, actor_optimizer ag)
      in ag\<lparr>actor := a, actor_optimizer := opt\<rparr>)"

type_synonym tracked = "params \<Rightarrow> real"

definition detach :: "params \<Rightarrow> tracked \<Rightarrow> tracked" where
  \<comment> \<open>a tensor of the actor's graph is a function of the actor's parameters;
      \<^verbatim>\<open>tensor.detach()\<close> keeps the value computed in the forward pass, at the parameters
      \<^verbatim>\<open>theta0\<close>, and cuts it from the graph\<close>
  "detach theta0 v = (\<lambda>theta. v theta0)"

definition alpha_loss :: "tracked list \<Rightarrow> real \<Rightarrow> params \<Rightarrow> real \<Rightarrow> params \<Rightarrow> real" where
  \<comment> \<open>\<^verbatim>\<open>sac_torch.py\<close> 211: \<^verbatim>\<open>-(self.log_alpha * (log_prob + self.target_entropy).detach()).mean()\<close>,
      as a function of \<^verbatim>\<open>log_alpha\<close> and of the actor's parameters\<close>
  "alpha_loss log_prob target_entropy_c theta0 la theta =
     - mean (map (\<lambda>lp. la * detach theta0 (\<lambda>th. lp th + target_entropy_c) theta) log_prob)"

definition update_alpha :: "sac_networks \<Rightarrow> sac_agent \<Rightarrow> tracked list \<Rightarrow> params \<Rightarrow> sac_agent" where
  \<comment> \<open>\<^verbatim>\<open>sac_torch.py\<close> 211-218. The optimizer steps its own tensor: \<^verbatim>\<open>self.log_alpha\<close>
      while that is the constructor's tensor; after \<^verbatim>\<open>load_models\<close> has bound
      \<^verbatim>\<open>self.log_alpha\<close> to a loaded tensor, the constructor's tensor, of which the loss is
      no function, and \<^verbatim>\<open>self.log_alpha\<close> keeps its value.\<close>
  "update_alpha N ag log_prob theta0 =
     (case optimizer_log_alpha ag of
        None \<Rightarrow>
          let (la, opt) = alpha_optimizer_step N
                            (\<lambda>la. alpha_loss log_prob (target_entropy ag) theta0 la (actor ag))
                            (log_alpha ag, alpha_optimizer ag)
          in ag\<lparr>log_alpha := la, alpha_optimizer := opt, alpha := exp la\<rparr>
      | Some t0 \<Rightarrow>
          let (t, opt) = alpha_optimizer_step N
                            (\<lambda>t. alpha_loss log_prob (target_entropy ag) theta0 (log_alpha ag) (actor ag))
                            (t0, alpha_optimizer ag)
          in ag\<lparr>alpha_optimizer := opt, optimizer_log_alpha := Some t, alpha := exp (log_alpha ag)\<rparr>)"

definition update_target :: "sac_agent \<Rightarrow> sac_agent" where
  \<comment> \<open>\<^verbatim>\<open>sac_torch.py\<close> 221-222\<close>
  "update_target ag = ag\<lparr>critic_target := soft_update (tau ag) (critic ag) (critic_target ag)\<rparr>"

definition update :: "sac_networks \<Rightarrow> sac_agent \<Rightarrow> transition list \<Rightarrow> real list list \<Rightarrow> real list list \<Rightarrow> sac_agent" where
  \<comment> \<open>\<^verbatim>\<open>sac_torch.py\<close> 156-222. \<^verbatim>\<open>batch\<close> is what \<^verbatim>\<open>sample_memory()\<close> returns,
      \<^verbatim>\<open>eps_next\<close> and \<^verbatim>\<open>eps_new\<close> are the standard normal draws of the two
      \<^verbatim>\<open>rsample()\<close> calls, one per batch row. The log-probability of the alpha loss is
      the tensor computed at line 195-197, in the forward pass at the actor's parameters
      before its optimizer step.\<close>
  "update N ag batch eps_next eps_new =
     (if len_memory (memory ag) < batch_size ag then ag
      else
        let ag1 = update_critic N ag batch eps_next;
            log_prob = map2 (\<lambda>row eps theta. snd (new_action N ag1 theta row eps)) batch eps_new;
            theta0 = actor ag1;
            ag2 = update_actor N ag1 batch eps_new;
            ag3 = update_alpha N ag2 log_prob theta0
        in update_target ag3)"

record sac_files =
  actor_pth :: "params option"
  critic_pth :: "params option"
  critic_target_pth :: "params option"
  log_alpha_pth :: "real option"

definition load_failed :: string where
  "load_failed = ''Failed to load SAC models and alpha. Starting from scratch.''"

definition load_ok :: string where
  "load_ok = ''SAC models and alpha loaded successfully.''"

definition load_models :: "sac_agent \<Rightarrow> sac_files \<Rightarrow> string \<times> sac_agent" where
  \<comment> \<open>\<^verbatim>\<open>sac_torch.py\<close> 238-247. A file is \<^verbatim>\<open>None\<close> when it is missing or corrupt, so
      that \<^verbatim>\<open>torch.load\<close> raises; the bare \<^verbatim>\<open>except\<close> catches it, and the result is the
      printed notice with the agent as the statements before the raise left it.\<close>
  "load_models ag files =
     (case actor_pth files of
        None \<Rightarrow> (load_failed, ag)
      | Some a \<Rightarrow>
          let ag1 = ag\<lparr>actor := a\<rparr> in
          (case critic_pth files of
             None \<Rightarrow> (load_failed, ag1)
           | Some c \<Rightarrow>
               let ag2 = ag1\<lparr>critic := c\<rparr> in
               (case critic_target_pth files of
                  None \<Rightarrow> (load_failed, ag2)
                | Some ct \<Rightarrow>
                    let ag3 = ag2\<lparr>critic_target := ct\<rparr> in
                    (case log_alpha_pth files of
                       None \<Rightarrow> (load_failed, ag3)
                     | Some la \<Rightarrow>
                         (load_ok,
                          ag3\<lparr>log_alpha := la,
                              optimizer_log_alpha :=
                                (case optimizer_log_alpha ag3 of
                                   None \<Rightarrow> Some (log_alpha ag3)
                                 | Some t0 \<Rightarrow> Some t0),
                              alpha := exp la\<rparr>)))))"

section \<open>The TD3 agent\<close>

text \<open>
  A TD3 network object carries its parameters and its own optimizer
  (\<^verbatim>\<open>self.critic_1.optimizer\<close>). The fields of the class \<^verbatim>\<open>Agent\<close> and its methods
  \<^verbatim>\<open>choose_action\<close> and \<^verbatim>\<open>load_models\<close> carry the prefix \<^verbatim>\<open>td3_\<close>, since the SAC
  agent has fields and methods of the same names.
\<close>

record network =
  net_params :: state_dict
  net_optimizer :: optim_state

record td3_networks =
  td3_actor_forward :: "state_dict \<Rightarrow> real list \<Rightarrow> real list"
  td3_critic_forward :: "state_dict \<Rightarrow> real list \<Rightarrow> real list \<Rightarrow> real"
  td3_optimizer_step :: "(state_dict \<Rightarrow> real) \<Rightarrow> network \<Rightarrow> network"

record td3_agent =
  td3_gamma :: real
  td3_tau :: real
  td3_max_action :: "real list"
  td3_min_action :: "real list"
  td3_memory :: replay_buffer
  td3_batch_size :: int
  td3_learn_step_counter :: int
  td3_time_step :: int
  td3_warmup :: int
  td3_n_actions :: int
  td3_update_action_iter :: int
  td3_actor :: network
  td3_critic_1 :: network
  td3_critic_2 :: network
  td3_target_actor :: network
  td3_target_critic_1 :: network
  td3_target_critic_2 :: network
  td3_noise :: real

definition load_state_dict :: "network \<Rightarrow> state_dict \<Rightarrow> network" where
  "load_state_dict net d = net\<lparr>net_params := d\<rparr>"

definition update_network_parameters :: "td3_agent \<Rightarrow> real option \<Rightarrow> py_error + td3_agent" where
  \<comment> \<open>\<^verbatim>\<open>td3_torch.py\<close> 201-222; the three dictionaries are computed before any target
      network is written, so a KeyError leaves the agent as it was\<close>
  "update_network_parameters ag tau_arg =
     (let tau_v = (case tau_arg of None \<Rightarrow> td3_tau ag | Some t \<Rightarrow> t) in
      case mix_state_dict tau_v (net_params (td3_critic_1 ag)) (net_params (td3_target_critic_1 ag)) of
        Inl e \<Rightarrow> Inl e
      | Inr critic_1_state_dict \<Rightarrow>
      (case mix_state_dict tau_v (net_params (td3_critic_2 ag)) (net_params (td3_target_critic_2 ag)) of
        Inl e \<Rightarrow> Inl e
      | Inr critic_2_state_dict \<Rightarrow>
      (case mix_state_dict tau_v (net_params (td3_actor ag)) (net_params (td3_target_actor ag)) of
        Inl e \<Rightarrow> Inl e
      | Inr actor_state_dict \<Rightarrow>
          Inr (ag\<lparr>td3_target_critic_1 := load_state_dict (td3_target_critic_1 ag) critic_1_state_dict,
                 td3_target_critic_2 := load_state_dict (td3_target_critic_2 ag) critic_2_state_dict,
                 td3_target_actor := load_state_dict (td3_target_actor ag) actor_state_dict\<rparr>))))"

definition Agent_init ::
  "real \<Rightarrow> real list \<Rightarrow> real list \<Rightarrow> real \<Rightarrow> int \<Rightarrow> int \<Rightarrow> int \<Rightarrow> int \<Rightarrow> int \<Rightarrow> real
     \<Rightarrow> network \<Rightarrow> network \<Rightarrow> network \<Rightarrow> network \<Rightarrow> network \<Rightarrow> network \<Rightarrow> py_error + td3_agent" where
  \<comment> \<open>\<^verbatim>\<open>td3_torch.py\<close> 46-81; the six freshly initialised networks are arguments, and the
      constructor ends with \<^verbatim>\<open>update_network_parameters(tau=1)\<close>\<close>
  "Agent_init tau_arg action_high action_low gamma_arg update_actor_interval warmup_arg
       n_actions max_size batch_size_arg noise_arg
       actor_init critic_1_init critic_2_init target_actor_init target_critic_1_init
       target_critic_2_init =
     update_network_parameters
       \<lparr>td3_gamma = gamma_arg, td3_tau = tau_arg,
        td3_max_action = action_high, td3_min_action = action_low,
        td3_memory = \<lparr>mem_size = max_size, mem_counter = 0\<rparr>,
        td3_batch_size = batch_size_arg,
        td3_learn_step_counter = 0, td3_time_step = 0,
        td3_warmup = warmup_arg, td3_n_actions = n_actions,
        td3_update_action_iter = update_actor_interval,
        td3_actor = actor_init, td3_critic_1 = critic_1_init, td3_critic_2 = critic_2_init,
        td3_target_actor = target_actor_init,
        td3_target_critic_1 = target_critic_1_init,
        td3_target_critic_2 = target_critic_2_init,
        td3_noise = noise_arg\<rparr>
       (Some 1)"

definition td3_choose_action ::
  "td3_networks \<Rightarrow> td3_agent \<Rightarrow> real list \<Rightarrow> bool \<Rightarrow> real list \<Rightarrow> real
     \<Rightarrow> py_error + real list \<times> td3_agent" where
  \<comment> \<open>\<^verbatim>\<open>td3_torch.py\<close> 98-109. \<^verbatim>\<open>warmup_draw\<close> is the vector
      \<^verbatim>\<open>np.random.normal(scale=noise, size=(n_actions,))\<close> of line 99, \<^verbatim>\<open>eps\<close> the single
      number \<^verbatim>\<open>np.random.normal(scale=noise)\<close> of line 104, which broadcasts over the
      action. \<^verbatim>\<open>min_action[0]\<close> on an empty bound raises IndexError.\<close>
  "td3_choose_action N ag observation validation warmup_draw eps =
     (let mu = (if td3_time_step ag < td3_warmup ag \<and> \<not> validation then warmup_draw
                else td3_actor_forward N (net_params (td3_actor ag)) observation);
          mu_prime = map (\<lambda>m. m + eps) mu
      in case (td3_min_action ag, td3_max_action ag) of
           (lo # _, hi # _) \<Rightarrow>
             Inr (map (\<lambda>m. clamp m lo hi) mu_prime, ag\<lparr>td3_time_step := td3_time_step ag + 1\<rparr>)
         | _ \<Rightarrow> Inl IndexError)"

definition td3_target_actions :: "td3_networks \<Rightarrow> td3_agent \<Rightarrow> real \<Rightarrow> real \<Rightarrow> real \<Rightarrow> transition \<Rightarrow> real list" where
  \<comment> \<open>\<^verbatim>\<open>td3_torch.py\<close> 145-149, one batch row; \<^verbatim>\<open>eps\<close> is the single draw
      \<^verbatim>\<open>np.random.normal(scale=0.2)\<close>, \<^verbatim>\<open>lo\<close> and \<^verbatim>\<open>hi\<close> are \<^verbatim>\<open>min_action[0]\<close> and
      \<^verbatim>\<open>max_action[0]\<close>\<close>
  "td3_target_actions N ag eps lo hi row =
     (let target_actions = td3_actor_forward N (net_params (td3_target_actor ag)) (next_state row);
          target_actions = map (\<lambda>a. a + clamp eps (- (1 / 2)) (1 / 2)) target_actions
      in map (\<lambda>a. clamp a lo hi) target_actions)"

definition td3_target_row :: "td3_networks \<Rightarrow> td3_agent \<Rightarrow> real \<Rightarrow> real \<Rightarrow> real \<Rightarrow> transition \<Rightarrow> real" where
  \<comment> \<open>\<^verbatim>\<open>td3_torch.py\<close> 151-165, one batch row\<close>
  "td3_target_row N ag eps lo hi row =
     (let target_actions = td3_target_actions N ag eps lo hi row;
          next_q1 = td3_critic_forward N (net_params (td3_target_critic_1 ag)) (next_state row) target_actions;
          next_q2 = td3_critic_forward N (net_params (td3_target_critic_2 ag)) (next_state row) target_actions;
          next_q1 = (if done_flag row then 0 else next_q1);
          next_q2 = (if done_flag row then 0 else next_q2);
          next_critic_value = min next_q1 next_q2
      in reward row + td3_gamma ag * next_critic_value)"

definition q_loss :: "td3_networks \<Rightarrow> transition list \<Rightarrow> real list \<Rightarrow> state_dict \<Rightarrow> real" where
  \<comment> \<open>\<^verbatim>\<open>F.mse_loss(target, q)\<close> for one critic, \<^verbatim>\<open>td3_torch.py\<close> 171-172\<close>
  "q_loss N batch target theta =
     mean (map2 (\<lambda>row y. (y - td3_critic_forward N theta (state row) (action row))\<^sup>2) batch target)"

definition td3_actor_loss :: "td3_networks \<Rightarrow> td3_agent \<Rightarrow> transition list \<Rightarrow> state_dict \<Rightarrow> real" where
  \<comment> \<open>\<^verbatim>\<open>td3_torch.py\<close> 186-187\<close>
  "td3_actor_loss N ag batch theta =
     - mean (map (\<lambda>row. td3_critic_forward N (net_params (td3_critic_1 ag)) (state row)
                          (td3_actor_forward N theta (state row))) batch)"

definition learn_critics :: "td3_networks \<Rightarrow> td3_agent \<Rightarrow> transition list \<Rightarrow> real \<Rightarrow> real \<Rightarrow> real \<Rightarrow> td3_agent" where
  \<comment> \<open>\<^verbatim>\<open>td3_torch.py\<close> 151-180: both critics step on \<^verbatim>\<open>q1_loss + q2_loss\<close>, then the
      counter of learn steps goes up by one\<close>
  "learn_critics N ag batch eps lo hi =
     (let target = map (td3_target_row N ag eps lo hi) batch;
          q2_loss = q_loss N batch target (net_params (td3_critic_2 ag));
          q1_loss = q_loss N batch target (net_params (td3_critic_1 ag));
          c1 = td3_optimizer_step N (\<lambda>theta. q_loss N batch target theta + q2_loss) (td3_critic_1 ag);
          c2 = td3_optimizer_step N (\<lambda>theta. q1_loss + q_loss N batch target theta) (td3_critic_2 ag)
      in ag\<lparr>td3_critic_1 := c1, td3_critic_2 := c2,
             td3_learn_step_counter := td3_learn_step_counter ag + 1\<rparr>)"

definition learn_actor :: "td3_networks \<Rightarrow> td3_agent \<Rightarrow> transition list \<Rightarrow> td3_agent" where
  \<comment> \<open>\<^verbatim>\<open>td3_torch.py\<close> 185-190\<close>
  "learn_actor N ag batch =
     ag\<lparr>td3_actor := td3_optimizer_step N (td3_actor_loss N ag batch) (td3_actor ag)\<rparr>"

definition learn :: "td3_networks \<Rightarrow> td3_agent \<Rightarrow> transition list \<Rightarrow> real \<Rightarrow> py_error option \<times> td3_agent" where
  \<comment> \<open>\<^verbatim>\<open>td3_torch.py\<close> 134-191: the exception raised, if any, and the agent as the call
      leaves it. \<^verbatim>\<open>batch\<close> is what \<^verbatim>\<open>sample_buffer(batch_size)\<close> returns. Python's
      \<^verbatim>\<open>%\<close> on integers is the floored \<^verbatim>\<open>mod\<close> and raises on a zero divisor.\<close>
  "learn N ag batch eps =
     (if mem_counter (td3_memory ag) < td3_batch_size ag * 10 then (None, ag)
      else
        case (td3_min_action ag, td3_max_action ag) of
          (lo # _, hi # _) \<Rightarrow>
            let ag1 = learn_critics N ag batch eps lo hi in
            if td3_update_action_iter ag1 = 0 then (Some ZeroDivisionError, ag1)
            else if td3_learn_step_counter ag1 mod td3_update_action_iter ag1 \<noteq> 0 then (None, ag1)
            else
              let ag2 = learn_actor N ag1 batch in
              (case update_network_parameters ag2 None of
                 Inl e \<Rightarrow> (Some e, ag2)
               | Inr ag3 \<Rightarrow> (None, ag3))
        | _ \<Rightarrow> (Some IndexError, ag))"

section \<open>Auxiliary definitions for the statements\<close>

definition polyak_dict :: "real \<Rightarrow> state_dict \<Rightarrow> state_dict \<Rightarrow> state_dict" where
  \<comment> \<open>the soft update of a named parameter set, entry by entry; the names are the online
      network's\<close>
  "polyak_dict tau_v online target =
     map2 (\<lambda>(name, p) (name', t). (name, polyak tau_v p t)) online target"

definition bootstrapped_value :: "sac_networks \<Rightarrow> sac_agent \<Rightarrow> transition \<Rightarrow> real list \<Rightarrow> real" where
  \<comment> \<open>the specification's soft value: the smaller of the two target-critic outputs at
      the next state and next action, minus \<open>exp log_alpha\<close> times the next action's
      log-probability\<close>
  "bootstrapped_value N ag row eps =
     (let a = fst (next_action N ag row eps);
          lp = snd (next_action N ag row eps);
          q = critic_forward N (critic_target ag) (next_state row) a
      in min (fst q) (snd q) - exp (log_alpha ag) * lp)"

definition spec_critic_target :: "sac_networks \<Rightarrow> sac_agent \<Rightarrow> transition \<Rightarrow> real list \<Rightarrow> real" where
  \<comment> \<open>the specification's regression target: the bootstrapped value is zeroed on a
      terminal row\<close>
  "spec_critic_target N ag row eps =
     reward row + gamma ag * (if done_flag row then 0 else bootstrapped_value N ag row eps)"

definition clamp_to_bounds :: "real list \<Rightarrow> real list \<Rightarrow> real list \<Rightarrow> real list" where
  \<comment> \<open>clamping an action to the declared bounds: every entry to the bounds of its own
      dimension\<close>
  "clamp_to_bounds act lows highs = map (\<lambda>(a, lo, hi). clamp a lo hi) (zip act (zip lows highs))"


definition within_bounds :: "real list \<Rightarrow> real list \<Rightarrow> real list \<Rightarrow> bool" where
  \<comment> \<open>every entry of an action lies between the bounds declared for its dimension\<close>
  "within_bounds act lows highs =
     list_all (\<lambda>(a, lo, hi). lo \<le> a \<and> a \<le> hi) (zip act (zip lows highs))"

subsection \<open>Concrete networks and agents, for the instances\<close>

definition ex_net :: "real \<Rightarrow> network" where
  "ex_net w = \<lparr>net_params = [(''weight'', [w, 2 * w]), (''bias'', [w])], net_optimizer = []\<rparr>"

definition ex_td3_networks :: td3_networks where
  "ex_td3_networks =
     \<lparr>td3_actor_forward = (\<lambda>theta s. concat (map snd (take 1 theta))),
      td3_critic_forward = (\<lambda>theta s a. sum_list (concat (map snd theta)) + sum_list a),
      td3_optimizer_step =
        (\<lambda>loss net. net\<lparr>net_params := map (\<lambda>(name, p). (name, map (\<lambda>w. w + 1) p)) (net_params net)\<rparr>)\<rparr>"

definition ex_td3_agent :: td3_agent where
  "ex_td3_agent =
     \<lparr>td3_gamma = 1, td3_tau = 1 / 2,
      td3_max_action = [2, 1], td3_min_action = [- 2, - 1],
      td3_memory = \<lparr>mem_size = 5, mem_counter = 10\<rparr>,
      td3_batch_size = 1,
      td3_learn_step_counter = 0, td3_time_step = 0,
      td3_warmup = 1, td3_n_actions = 2,
      td3_update_action_iter = 2,
      td3_actor = ex_net 1, td3_critic_1 = ex_net 2, td3_critic_2 = ex_net 3,
      td3_target_actor = ex_net 4, td3_target_critic_1 = ex_net 5, td3_target_critic_2 = ex_net 6,
      td3_noise = 1 / 10\<rparr>"

definition ex_sac_networks :: sac_networks where
  "ex_sac_networks =
     \<lparr>actor_forward = (\<lambda>theta s. ([sum_list (concat theta), sum_list s], [1, 2])),
      critic_forward = (\<lambda>theta s a. (sum_list (concat theta) + sum_list a, sum_list (concat theta) - sum_list a)),
      critic_optimizer_step = (\<lambda>loss (theta, opt). (map (map (\<lambda>w. w + 1)) theta, 1 # opt)),
      actor_optimizer_step = (\<lambda>loss (theta, opt). (map (map (\<lambda>w. w - 1)) theta, 1 # opt)),
      alpha_optimizer_step = (\<lambda>loss (la, opt). (la + 1, 1 # opt))\<rparr>"

definition ex_sac_agent :: sac_agent where
  "ex_sac_agent =
     (SACAgent_init 2 (2 / 5) 1 (1 / 2) 10 1 1 0 None [[1], [2]] [[3], [4]])
       \<lparr>memory := \<lparr>mem_size = 10, mem_counter = 3\<rparr>\<rparr>"

definition ex_row :: transition where
  "ex_row = \<lparr>state = [0, 1], action = [1, 0], reward = 1, next_state = [1, 1], done_flag = False\<rparr>"

definition ex_row_done :: transition where
  "ex_row_done = \<lparr>state = [0, 1], action = [1, 0], reward = 1, next_state = [1, 1], done_flag = True\<rparr>"

definition ex_sac_fresh :: sac_agent where
  "ex_sac_fresh = SACAgent_init 2 (2 / 5) 1 (1 / 2) 10 1 1 0 None [[1], [2]] [[3], [4]]"

definition ex_td3_early :: td3_agent where
  "ex_td3_early = ex_td3_agent\<lparr>td3_memory := \<lparr>mem_size = 100, mem_counter = 3\<rparr>\<rparr>"

definition ex_td3_due :: td3_agent where
  "ex_td3_due = ex_td3_agent\<lparr>td3_learn_step_counter := 1\<rparr>"

definition ex_sac_files :: sac_files where
  \<comment> \<open>a valid actor checkpoint, no critic checkpoint\<close>
  "ex_sac_files =
     \<lparr>actor_pth = Some [[7], [8]], critic_pth = None,
      critic_target_pth = Some [[3], [4]], log_alpha_pth = Some 0\<rparr>"

definition ex_sac_all_files :: sac_files where
  \<comment> \<open>four valid checkpoints, with \<open>log_alpha = 1 / 2\<close>\<close>
  "ex_sac_all_files =
     \<lparr>actor_pth = Some [[1], [2]], critic_pth = Some [[3], [4]],
      critic_target_pth = Some [[3], [4]], log_alpha_pth = Some (1 / 2)\<rparr>"

definition ex_sac_loaded :: sac_agent where
  "ex_sac_loaded = snd (load_models ex_sac_agent ex_sac_all_files)"


section \<open>Lemmas on the soft update\<close>

lemma polyak_zero: "length p = length t \<Longrightarrow> polyak 0 p t = t"
  unfolding polyak_def by (induction p t rule: list_induct2) simp_all

lemma polyak_one: "length p = length t \<Longrightarrow> polyak 1 p t = p"
  unfolding polyak_def by (induction p t rule: list_induct2) simp_all

lemma polyak_nth:
  "i < length p \<Longrightarrow> i < length t \<Longrightarrow> polyak tau_v p t ! i = tau_v * p ! i + (1 - tau_v) * t ! i"
  unfolding polyak_def by simp

lemma length_polyak: "length (polyak tau_v p t) = min (length p) (length t)"
  unfolding polyak_def by simp

lemma soft_update_map2:
  "same_shape online target \<Longrightarrow> soft_update tau_v online target = map2 (polyak tau_v) online target"
  unfolding same_shape_def by (induction online target rule: list_all2_induct) simp_all

lemma soft_update_zero: "same_shape online target \<Longrightarrow> soft_update 0 online target = target"
  unfolding same_shape_def by (induction online target rule: list_all2_induct) (simp_all add: polyak_zero)

lemma soft_update_one: "same_shape online target \<Longrightarrow> soft_update 1 online target = online"
  unfolding same_shape_def by (induction online target rule: list_all2_induct) (simp_all add: polyak_one)

lemma soft_update_nth:
  assumes "same_shape online target" "j < length target" "i < length (target ! j)"
  shows "soft_update tau_v online target ! j ! i = tau_v * online ! j ! i + (1 - tau_v) * target ! j ! i"
proof -
  have len: "length online = length target" and sh: "length (online ! j) = length (target ! j)"
    using assms(1,2) unfolding same_shape_def by (auto dest: list_all2_lengthD list_all2_nthD2)
  have "soft_update tau_v online target ! j = polyak tau_v (online ! j) (target ! j)"
    using assms(1,2) len by (simp add: soft_update_map2)
  then show ?thesis using assms(3) sh by (simp add: polyak_nth)
qed

lemma mix_state_dict_sub:
  "distinct (map fst target) \<Longrightarrow> set sub \<subseteq> set target \<Longrightarrow> map fst online = map fst sub \<Longrightarrow>
     mix_state_dict tau_v online target = Inr (polyak_dict tau_v online sub)"
proof (induction online arbitrary: sub)
  case Nil
  then show ?case by (simp add: polyak_dict_def)
next
  case (Cons a online)
  obtain name p where a: "a = (name, p)" by (cases a)
  from Cons.prems(3) obtain b sub' where sub: "sub = b # sub'" by (cases sub) auto
  obtain name' t where b: "b = (name', t)" by (cases b)
  from Cons.prems(3) a b sub have eq: "name' = name" and rest: "map fst online = map fst sub'" by auto
  from Cons.prems(2) sub b eq have "(name, t) \<in> set target" by auto
  with Cons.prems(1) have look: "map_of target name = Some t" by simp
  from Cons.prems(2) sub have "set sub' \<subseteq> set target" by auto
  from Cons.IH[OF Cons.prems(1) this rest] look a b sub eq
  show ?case by (simp add: polyak_dict_def)
qed

lemma mix_state_dict_same:
  "same_architecture online target \<Longrightarrow> mix_state_dict tau_v online target = Inr (polyak_dict tau_v online target)"
  unfolding same_architecture_def by (rule mix_state_dict_sub) auto

lemma polyak_dict_zero:
  "same_architecture online target \<Longrightarrow> polyak_dict 0 online target = target"
proof -
  have "map fst online = map fst target \<Longrightarrow> list_all2 (\<lambda>p t. length p = length t) (map snd online) (map snd target)
      \<Longrightarrow> polyak_dict 0 online target = target"
  proof (induction online arbitrary: target)
    case Nil then show ?case by (simp add: polyak_dict_def)
  next
    case (Cons a online)
    then show ?case by (cases target) (auto simp: polyak_dict_def polyak_zero split: prod.splits)
  qed
  then show "same_architecture online target \<Longrightarrow> polyak_dict 0 online target = target"
    unfolding same_architecture_def same_shape_def by blast
qed

lemma polyak_dict_one:
  "same_architecture online target \<Longrightarrow> polyak_dict 1 online target = online"
proof -
  have "map fst online = map fst target \<Longrightarrow> list_all2 (\<lambda>p t. length p = length t) (map snd online) (map snd target)
      \<Longrightarrow> polyak_dict 1 online target = online"
  proof (induction online arbitrary: target)
    case Nil then show ?case by (simp add: polyak_dict_def)
  next
    case (Cons a online)
    then show ?case by (cases target) (auto simp: polyak_dict_def polyak_one split: prod.splits)
  qed
  then show "same_architecture online target \<Longrightarrow> polyak_dict 1 online target = online"
    unfolding same_architecture_def same_shape_def by blast
qed

section \<open>Lemmas on the bounded log-probability\<close>

lemma length_rsample:
  "length mu = length eps \<Longrightarrow> length std = length eps \<Longrightarrow> length (rsample mu std eps) = length eps"
  by (simp add: rsample_def)

lemma sample_action_log_prob:
  assumes "length mu = length eps" "length std = length eps"
  shows "snd (sample_action sc b (mu, std) eps)
           = closed_form_log_prob sc mu std (rsample mu std eps)"
proof -
  let ?x = "rsample mu std eps"
  let ?n = "length eps"
  have lx: "length ?x = ?n" using assms by (rule length_rsample)
  have "map2 (\<lambda>lp y. lp - ln (sc * (1 - y\<^sup>2) + 1 / 10 ^ 6))
          (map (\<lambda>(m, s, x). normal_log_prob m s x) (zip mu (zip std ?x))) (map tanh ?x)
        = map (\<lambda>d. normal_log_prob (mu ! d) (std ! d) (?x ! d)
                   - ln (sc * (1 - (tanh (?x ! d))\<^sup>2) + 1 / 10 ^ 6)) [0..<?n]"
    using assms lx by (intro nth_equalityI) simp_all
  then have "snd (sample_action sc b (mu, std) eps)
        = sum_list (map (\<lambda>d. normal_log_prob (mu ! d) (std ! d) (?x ! d)
                   - ln (sc * (1 - (tanh (?x ! d))\<^sup>2) + 1 / 10 ^ 6)) [0..<?n])"
    by (simp add: sample_action_def Let_def)
  also have "\<dots> = closed_form_log_prob sc mu std ?x"
    unfolding closed_form_log_prob_def lx by (simp add: sum_list_subtractf)
  finally show ?thesis .
qed

lemma jacobian_term_bounds:
  fixes sc x :: real
  assumes "0 \<le> sc"
  shows "1 / 10 ^ 6 \<le> sc * (1 - (tanh x)\<^sup>2) + 1 / 10 ^ 6"
    and "sc * (1 - (tanh x)\<^sup>2) + 1 / 10 ^ 6 \<le> sc + 1 / 10 ^ 6"
proof -
  have "\<bar>tanh x\<bar> < 1" using tanh_real_lt_1[of x] tanh_real_gt_neg1[of x] by simp
  then have "(tanh x)\<^sup>2 < 1" by (simp add: abs_square_less_1)
  then have pos: "0 \<le> 1 - (tanh x)\<^sup>2" by simp
  have le: "1 - (tanh x)\<^sup>2 \<le> 1" by simp
  from assms pos show "1 / 10 ^ 6 \<le> sc * (1 - (tanh x)\<^sup>2) + 1 / 10 ^ 6" by simp
  from assms le have "sc * (1 - (tanh x)\<^sup>2) \<le> sc * 1" by (rule mult_left_mono[rotated])
  then show "sc * (1 - (tanh x)\<^sup>2) + 1 / 10 ^ 6 \<le> sc + 1 / 10 ^ 6" by simp
qed

lemma jacobian_log_bounds:
  fixes sc x :: real
  assumes "0 \<le> sc"
  shows "ln (1 / 10 ^ 6) \<le> ln (sc * (1 - (tanh x)\<^sup>2) + 1 / 10 ^ 6)
       \<and> ln (sc * (1 - (tanh x)\<^sup>2) + 1 / 10 ^ 6) \<le> ln (sc + 1 / 10 ^ 6)"
proof -
  note b = jacobian_term_bounds[OF assms, of x]
  have p: "(0::real) < 1 / 10 ^ 6" by simp
  from p b(1) have p2: "0 < sc * (1 - (tanh x)\<^sup>2) + 1 / 10 ^ 6" by linarith
  from p b(1) have "ln (1 / 10 ^ 6) \<le> ln (sc * (1 - (tanh x)\<^sup>2) + 1 / 10 ^ 6)"
    by (subst ln_le_cancel_iff) (use p2 in simp_all)
  moreover from p2 b(2) have "ln (sc * (1 - (tanh x)\<^sup>2) + 1 / 10 ^ 6) \<le> ln (sc + 1 / 10 ^ 6)"
    by (subst ln_le_cancel_iff) linarith+
  ultimately show ?thesis by blast
qed

section \<open>Lemmas on the stages of the SAC update\<close>

lemma update_critic_fields:
  "(critic (update_critic N ag batch eps_next), critic_optimizer (update_critic N ag batch eps_next))
     = critic_optimizer_step N (critic_loss N batch (map2 (target_Q_row N ag) batch eps_next))
         (critic ag, critic_optimizer ag)"
  "actor (update_critic N ag batch eps_next) = actor ag"
  "actor_optimizer (update_critic N ag batch eps_next) = actor_optimizer ag"
  "optimizer_log_alpha (update_critic N ag batch eps_next) = optimizer_log_alpha ag"
  "log_alpha (update_critic N ag batch eps_next) = log_alpha ag"
  "alpha_optimizer (update_critic N ag batch eps_next) = alpha_optimizer ag"
  "critic_target (update_critic N ag batch eps_next) = critic_target ag"
  "target_entropy (update_critic N ag batch eps_next) = target_entropy ag"
  "tau (update_critic N ag batch eps_next) = tau ag"
  "gamma (update_critic N ag batch eps_next) = gamma ag"
  "action_scale (update_critic N ag batch eps_next) = action_scale ag"
  "action_bias (update_critic N ag batch eps_next) = action_bias ag"
  "memory (update_critic N ag batch eps_next) = memory ag"
  "batch_size (update_critic N ag batch eps_next) = batch_size ag"
  by (simp_all add: update_critic_def Let_def split: prod.splits)

lemma update_actor_fields:
  "(actor (update_actor N ag batch eps_new), actor_optimizer (update_actor N ag batch eps_new))
     = actor_optimizer_step N (actor_loss N ag batch eps_new) (actor ag, actor_optimizer ag)"
  "critic (update_actor N ag batch eps_new) = critic ag"
  "critic_optimizer (update_actor N ag batch eps_new) = critic_optimizer ag"
  "optimizer_log_alpha (update_actor N ag batch eps_new) = optimizer_log_alpha ag"
  "log_alpha (update_actor N ag batch eps_new) = log_alpha ag"
  "alpha_optimizer (update_actor N ag batch eps_new) = alpha_optimizer ag"
  "critic_target (update_actor N ag batch eps_new) = critic_target ag"
  "target_entropy (update_actor N ag batch eps_new) = target_entropy ag"
  "tau (update_actor N ag batch eps_new) = tau ag"
  "gamma (update_actor N ag batch eps_new) = gamma ag"
  "action_scale (update_actor N ag batch eps_new) = action_scale ag"
  "action_bias (update_actor N ag batch eps_new) = action_bias ag"
  "memory (update_actor N ag batch eps_new) = memory ag"
  "batch_size (update_actor N ag batch eps_new) = batch_size ag"
  by (simp_all add: update_actor_def Let_def split: prod.splits)

lemma update_alpha_fields:
  "alpha (update_alpha N ag log_prob theta0) = exp (log_alpha (update_alpha N ag log_prob theta0))"
  "critic (update_alpha N ag log_prob theta0) = critic ag"
  "critic_optimizer (update_alpha N ag log_prob theta0) = critic_optimizer ag"
  "actor (update_alpha N ag log_prob theta0) = actor ag"
  "actor_optimizer (update_alpha N ag log_prob theta0) = actor_optimizer ag"
  "critic_target (update_alpha N ag log_prob theta0) = critic_target ag"
  "target_entropy (update_alpha N ag log_prob theta0) = target_entropy ag"
  "tau (update_alpha N ag log_prob theta0) = tau ag"
  "gamma (update_alpha N ag log_prob theta0) = gamma ag"
  "action_scale (update_alpha N ag log_prob theta0) = action_scale ag"
  "action_bias (update_alpha N ag log_prob theta0) = action_bias ag"
  "memory (update_alpha N ag log_prob theta0) = memory ag"
  "batch_size (update_alpha N ag log_prob theta0) = batch_size ag"
  by (simp_all add: update_alpha_def Let_def split: prod.splits option.splits)

lemma update_alpha_own_tensor:
  "optimizer_log_alpha ag = None \<Longrightarrow>
     (log_alpha (update_alpha N ag log_prob theta0), alpha_optimizer (update_alpha N ag log_prob theta0))
       = alpha_optimizer_step N (\<lambda>la. alpha_loss log_prob (target_entropy ag) theta0 la (actor ag))
           (log_alpha ag, alpha_optimizer ag)"
  by (simp add: update_alpha_def Let_def split: prod.splits)

lemma update_alpha_other_tensor:
  "optimizer_log_alpha ag = Some t0 \<Longrightarrow>
     log_alpha (update_alpha N ag log_prob theta0) = log_alpha ag"
  by (simp add: update_alpha_def Let_def split: prod.splits)

lemma update_target_fields:
  "critic_target (update_target ag) = soft_update (tau ag) (critic ag) (critic_target ag)"
  "critic (update_target ag) = critic ag"
  "critic_optimizer (update_target ag) = critic_optimizer ag"
  "actor (update_target ag) = actor ag"
  "actor_optimizer (update_target ag) = actor_optimizer ag"
  "optimizer_log_alpha (update_target ag) = optimizer_log_alpha ag"
  "log_alpha (update_target ag) = log_alpha ag"
  "alpha_optimizer (update_target ag) = alpha_optimizer ag"
  "alpha (update_target ag) = alpha ag"
  "target_entropy (update_target ag) = target_entropy ag"
  "tau (update_target ag) = tau ag"
  "gamma (update_target ag) = gamma ag"
  "action_scale (update_target ag) = action_scale ag"
  "action_bias (update_target ag) = action_bias ag"
  "memory (update_target ag) = memory ag"
  "batch_size (update_target ag) = batch_size ag"
  by (simp_all add: update_target_def)

lemma update_gate_open:
  "\<not> len_memory (memory ag) < batch_size ag \<Longrightarrow>
     update N ag batch eps_next eps_new =
       update_target
         (update_alpha N (update_actor N (update_critic N ag batch eps_next) batch eps_new)
            (map2 (\<lambda>row eps theta. snd (new_action N (update_critic N ag batch eps_next) theta row eps))
               batch eps_new)
            (actor ag))"
  by (simp add: update_def Let_def update_critic_fields)

lemma target_Q_row_spec: "target_Q_row N ag row eps = spec_critic_target N ag row eps"
  by (simp add: target_Q_row_def spec_critic_target_def bootstrapped_value_def Let_def
      split: prod.splits)

section \<open>Lemmas on the stages of the TD3 learn step\<close>

lemma learn_critics_fields:
  "td3_critic_1 (learn_critics N ag batch eps lo hi)
     = td3_optimizer_step N
         (\<lambda>theta. q_loss N batch (map (td3_target_row N ag eps lo hi) batch) theta
                  + q_loss N batch (map (td3_target_row N ag eps lo hi) batch) (net_params (td3_critic_2 ag)))
         (td3_critic_1 ag)"
  "td3_critic_2 (learn_critics N ag batch eps lo hi)
     = td3_optimizer_step N
         (\<lambda>theta. q_loss N batch (map (td3_target_row N ag eps lo hi) batch) (net_params (td3_critic_1 ag))
                  + q_loss N batch (map (td3_target_row N ag eps lo hi) batch) theta)
         (td3_critic_2 ag)"
  "td3_learn_step_counter (learn_critics N ag batch eps lo hi) = td3_learn_step_counter ag + 1"
  "td3_update_action_iter (learn_critics N ag batch eps lo hi) = td3_update_action_iter ag"
  "td3_actor (learn_critics N ag batch eps lo hi) = td3_actor ag"
  "td3_target_actor (learn_critics N ag batch eps lo hi) = td3_target_actor ag"
  "td3_target_critic_1 (learn_critics N ag batch eps lo hi) = td3_target_critic_1 ag"
  "td3_target_critic_2 (learn_critics N ag batch eps lo hi) = td3_target_critic_2 ag"
  "td3_tau (learn_critics N ag batch eps lo hi) = td3_tau ag"
  by (simp_all add: learn_critics_def Let_def)

lemma learn_actor_fields:
  "td3_actor (learn_actor N ag batch) = td3_optimizer_step N (td3_actor_loss N ag batch) (td3_actor ag)"
  "td3_critic_1 (learn_actor N ag batch) = td3_critic_1 ag"
  "td3_critic_2 (learn_actor N ag batch) = td3_critic_2 ag"
  "td3_learn_step_counter (learn_actor N ag batch) = td3_learn_step_counter ag"
  "td3_target_actor (learn_actor N ag batch) = td3_target_actor ag"
  "td3_target_critic_1 (learn_actor N ag batch) = td3_target_critic_1 ag"
  "td3_target_critic_2 (learn_actor N ag batch) = td3_target_critic_2 ag"
  "td3_tau (learn_actor N ag batch) = td3_tau ag"
  by (simp_all add: learn_actor_def)

lemma update_network_parameters_keeps:
  assumes "update_network_parameters ag tau_arg = Inr ag'"
  shows "td3_critic_1 ag' = td3_critic_1 ag" "td3_critic_2 ag' = td3_critic_2 ag"
    "td3_actor ag' = td3_actor ag" "td3_learn_step_counter ag' = td3_learn_step_counter ag"
  using assms
  by (auto simp: update_network_parameters_def Let_def split: sum.splits)

lemma learn_gate_open:
  assumes "\<not> mem_counter (td3_memory ag) < td3_batch_size ag * 10"
    and "td3_min_action ag = lo # los" and "td3_max_action ag = hi # his"
  shows "learn N ag batch eps =
     (let ag1 = learn_critics N ag batch eps lo hi in
      if td3_update_action_iter ag = 0 then (Some ZeroDivisionError, ag1)
      else if (td3_learn_step_counter ag + 1) mod td3_update_action_iter ag \<noteq> 0 then (None, ag1)
      else
        let ag2 = learn_actor N ag1 batch in
        (case update_network_parameters ag2 None of
           Inl e \<Rightarrow> (Some e, ag2)
         | Inr ag3 \<Rightarrow> (None, ag3)))"
  using assms by (simp add: learn_def Let_def learn_critics_fields)

lemma learn_critic_1:
  assumes "\<not> mem_counter (td3_memory ag) < td3_batch_size ag * 10"
    and "td3_min_action ag = lo # los" and "td3_max_action ag = hi # his"
  shows "td3_critic_1 (snd (learn N ag batch eps)) = td3_critic_1 (learn_critics N ag batch eps lo hi)"
    and "td3_critic_2 (snd (learn N ag batch eps)) = td3_critic_2 (learn_critics N ag batch eps lo hi)"
    and "td3_learn_step_counter (snd (learn N ag batch eps)) = td3_learn_step_counter ag + 1"
  unfolding learn_gate_open[OF assms]
  by (auto simp: Let_def learn_actor_fields learn_critics_fields
      dest: update_network_parameters_keeps split: sum.splits)



section \<open>Lemmas on clamping\<close>


section \<open>Lemmas on the target updates inside the update steps\<close>

lemma update_network_parameters_polyak:
  assumes "same_architecture (net_params (td3_critic_1 ag)) (net_params (td3_target_critic_1 ag))"
    and "same_architecture (net_params (td3_critic_2 ag)) (net_params (td3_target_critic_2 ag))"
    and "same_architecture (net_params (td3_actor ag)) (net_params (td3_target_actor ag))"
  shows "update_network_parameters ag tau_arg =
           Inr (ag\<lparr>td3_target_critic_1 := load_state_dict (td3_target_critic_1 ag)
                      (polyak_dict (case tau_arg of None \<Rightarrow> td3_tau ag | Some t \<Rightarrow> t)
                         (net_params (td3_critic_1 ag)) (net_params (td3_target_critic_1 ag))),
                   td3_target_critic_2 := load_state_dict (td3_target_critic_2 ag)
                      (polyak_dict (case tau_arg of None \<Rightarrow> td3_tau ag | Some t \<Rightarrow> t)
                         (net_params (td3_critic_2 ag)) (net_params (td3_target_critic_2 ag))),
                   td3_target_actor := load_state_dict (td3_target_actor ag)
                      (polyak_dict (case tau_arg of None \<Rightarrow> td3_tau ag | Some t \<Rightarrow> t)
                         (net_params (td3_actor ag)) (net_params (td3_target_actor ag)))\<rparr>)"
  unfolding update_network_parameters_def
  by (simp add: mix_state_dict_same[OF assms(1)] mix_state_dict_same[OF assms(2)]
      mix_state_dict_same[OF assms(3)] Let_def)

lemma sac_update_target:
  assumes "\<not> len_memory (memory ag) < batch_size ag"
  shows "critic_target (update N ag batch eps_next eps_new)
           = soft_update (tau ag) (critic (update N ag batch eps_next eps_new)) (critic_target ag)"
  unfolding update_gate_open[OF assms]
  by (simp only: update_target_fields update_alpha_fields update_actor_fields update_critic_fields)

lemma Agent_init_hard_copy:
  assumes "same_architecture (net_params critic_1_init) (net_params target_critic_1_init)"
    and "same_architecture (net_params critic_2_init) (net_params target_critic_2_init)"
    and "same_architecture (net_params actor_init) (net_params target_actor_init)"
  shows "Agent_init tau_arg action_high action_low gamma_arg update_actor_interval warmup_arg
           n_actions max_size batch_size_arg noise_arg
           actor_init critic_1_init critic_2_init target_actor_init target_critic_1_init
           target_critic_2_init =
         Inr \<lparr>td3_gamma = gamma_arg, td3_tau = tau_arg,
              td3_max_action = action_high, td3_min_action = action_low,
              td3_memory = \<lparr>mem_size = max_size, mem_counter = 0\<rparr>,
              td3_batch_size = batch_size_arg,
              td3_learn_step_counter = 0, td3_time_step = 0,
              td3_warmup = warmup_arg, td3_n_actions = n_actions,
              td3_update_action_iter = update_actor_interval,
              td3_actor = actor_init, td3_critic_1 = critic_1_init, td3_critic_2 = critic_2_init,
              td3_target_actor = load_state_dict target_actor_init (net_params actor_init),
              td3_target_critic_1 = load_state_dict target_critic_1_init (net_params critic_1_init),
              td3_target_critic_2 = load_state_dict target_critic_2_init (net_params critic_2_init),
              td3_noise = noise_arg\<rparr>"
  unfolding Agent_init_def
  by (subst update_network_parameters_polyak)
     (simp_all add: assms polyak_dict_one[OF assms(1)] polyak_dict_one[OF assms(2)]
        polyak_dict_one[OF assms(3)])

lemma td3_choose_action_keeps_counter:
  "td3_choose_action N ag observation validation warmup_draw eps = Inr (act, ag') \<Longrightarrow>
     td3_learn_step_counter ag' = td3_learn_step_counter ag"
  by (auto simp: td3_choose_action_def Let_def split: list.splits)

section \<open>Lemmas on the entropy coefficient\<close>

lemma alpha_loss_value:
  "alpha_loss log_prob te theta0 la theta = - mean (map (\<lambda>lp. la * (lp theta0 + te)) log_prob)"
  by (simp add: alpha_loss_def detach_def)

lemma alpha_loss_linear:
  "alpha_loss log_prob te theta0 la theta = la * (- mean (map (\<lambda>lp. lp theta0 + te) log_prob))"
  by (simp add: alpha_loss_value mean_def sum_list_const_mult comp_def)

lemma alpha_loss_derivative:
  "((\<lambda>la. alpha_loss log_prob te theta0 la theta) has_real_derivative
      (- mean (map (\<lambda>lp. lp theta0 + te) log_prob))) (at la)"
  unfolding alpha_loss_linear by (auto intro!: derivative_eq_intros)

lemma alpha_loss_batch:
  "alpha_loss (map2 (\<lambda>row eps theta. f row eps theta) batch eps_new) te theta0 la theta
     = - mean (map2 (\<lambda>row eps. la * (f row eps theta0 + te)) batch eps_new)"
  by (simp add: alpha_loss_value comp_def case_prod_unfold)

lemma new_action_scale_only:
  "action_scale ag' = action_scale ag \<Longrightarrow> action_bias ag' = action_bias ag \<Longrightarrow>
     new_action N ag' theta row eps = new_action N ag theta row eps"
  by (simp add: new_action_def)

lemma sac_update_log_alpha:
  assumes "\<not> len_memory (memory ag) < batch_size ag" and "optimizer_log_alpha ag = None"
  shows "(log_alpha (update N ag batch eps_next eps_new), alpha_optimizer (update N ag batch eps_next eps_new))
           = alpha_optimizer_step N
               (\<lambda>la. - mean (map2 (\<lambda>row eps. la * (snd (new_action N ag (actor ag) row eps)
                                                     + target_entropy ag)) batch eps_new))
               (log_alpha ag, alpha_optimizer ag)"
proof -
  let ?ag1 = "update_critic N ag batch eps_next"
  let ?ag2 = "update_actor N ?ag1 batch eps_new"
  have n: "new_action N ?ag1 = new_action N ag"
    by (intro ext new_action_scale_only) (simp_all add: update_critic_fields)
  have o: "optimizer_log_alpha ?ag2 = None"
    using assms(2) by (simp add: update_actor_fields update_critic_fields)
  have f: "log_alpha ?ag2 = log_alpha ag" "alpha_optimizer ?ag2 = alpha_optimizer ag"
    "target_entropy ?ag2 = target_entropy ag"
    by (simp_all add: update_actor_fields update_critic_fields)
  show ?thesis
    unfolding update_gate_open[OF assms(1)] update_target_fields
      update_alpha_own_tensor[OF o] f n alpha_loss_batch ..
qed

lemma sac_update_log_alpha_rebound:
  assumes "\<not> len_memory (memory ag) < batch_size ag" and "optimizer_log_alpha ag = Some t0"
  shows "log_alpha (update N ag batch eps_next eps_new) = log_alpha ag"
proof -
  let ?ag2 = "update_actor N (update_critic N ag batch eps_next) batch eps_new"
  have o: "optimizer_log_alpha ?ag2 = Some t0"
    using assms(2) by (simp add: update_actor_fields update_critic_fields)
  show ?thesis
    unfolding update_gate_open[OF assms(1)] update_target_fields update_alpha_other_tensor[OF o]
    by (simp add: update_actor_fields update_critic_fields)
qed

lemma sac_update_actor:
  assumes "\<not> len_memory (memory ag) < batch_size ag"
  shows "(actor (update N ag batch eps_next eps_new), actor_optimizer (update N ag batch eps_next eps_new))
           = actor_optimizer_step N
               (actor_loss N (update_critic N ag batch eps_next) batch eps_new)
               (actor ag, actor_optimizer ag)"
  unfolding update_gate_open[OF assms]
  by (simp only: update_target_fields update_alpha_fields update_actor_fields
      update_critic_fields)

lemma alpha_step_irrelevant_loss:
  "critic_loss (N\<lparr>alpha_optimizer_step := f\<rparr>) batch target_Q = critic_loss N batch target_Q"
  "actor_loss (N\<lparr>alpha_optimizer_step := f\<rparr>) ag batch eps_new = actor_loss N ag batch eps_new"
  "target_Q_row (N\<lparr>alpha_optimizer_step := f\<rparr>) ag = target_Q_row N ag"
  by (intro ext, simp add: critic_loss_def actor_loss_def new_action_def target_Q_row_def
      next_action_def)+

lemma alpha_step_irrelevant:
  "update_critic (N\<lparr>alpha_optimizer_step := f\<rparr>) ag batch eps_next = update_critic N ag batch eps_next"
  by (simp add: update_critic_def alpha_step_irrelevant_loss)

section \<open>Lemmas on the stored entropy coefficient\<close>

lemma alpha_field_irrelevant:
  "target_Q_row N (ag\<lparr>alpha := a\<rparr>) = target_Q_row N ag"
  "actor_loss N (ag\<lparr>alpha := a\<rparr>) batch eps_new = actor_loss N ag batch eps_new"
  "new_action N (ag\<lparr>alpha := a\<rparr>) = new_action N ag"
  "choose_action N (ag\<lparr>alpha := a\<rparr>) = choose_action N ag"
  by (intro ext, simp add: actor_loss_def new_action_def target_Q_row_def next_action_def
      choose_action_def)+

lemma alpha_field_stages:
  "update_critic N (ag\<lparr>alpha := a\<rparr>) batch eps_next = (update_critic N ag batch eps_next)\<lparr>alpha := a\<rparr>"
  "update_actor N (ag\<lparr>alpha := a\<rparr>) batch eps_new = (update_actor N ag batch eps_new)\<lparr>alpha := a\<rparr>"
  "update_alpha N (ag\<lparr>alpha := a\<rparr>) log_prob theta0 = update_alpha N ag log_prob theta0"
  "update_target (ag\<lparr>alpha := a\<rparr>) = (update_target ag)\<lparr>alpha := a\<rparr>"
  by (simp_all add: update_critic_def update_actor_def update_alpha_def update_target_def
      alpha_field_irrelevant Let_def split: prod.splits option.splits)

lemma update_alpha_field:
  "update N (ag\<lparr>alpha := a\<rparr>) batch eps_next eps_new =
     (if len_memory (memory ag) < batch_size ag then ag\<lparr>alpha := a\<rparr>
      else update N ag batch eps_next eps_new)"
  by (simp add: update_def Let_def alpha_field_stages alpha_field_irrelevant update_critic_fields)

section \<open>Lemmas on loading checkpoints\<close>

lemma load_models_notice:
  "fst (load_models ag files) =
     (if actor_pth files = None \<or> critic_pth files = None \<or> critic_target_pth files = None
         \<or> log_alpha_pth files = None
      then load_failed else load_ok)"
  by (simp add: load_models_def Let_def split: option.splits)

lemma load_models_first_file_missing:
  "actor_pth files = None \<Longrightarrow> load_models ag files = (load_failed, ag)"
  by (simp add: load_models_def)

lemma load_models_all_files:
  "actor_pth files = Some a \<Longrightarrow> critic_pth files = Some c \<Longrightarrow> critic_target_pth files = Some ct
     \<Longrightarrow> log_alpha_pth files = Some la \<Longrightarrow>
   load_models ag files =
     (load_ok,
      ag\<lparr>actor := a, critic := c, critic_target := ct, log_alpha := la,
         optimizer_log_alpha :=
           (case optimizer_log_alpha ag of None \<Rightarrow> Some (log_alpha ag) | Some t0 \<Rightarrow> Some t0),
         alpha := exp la\<rparr>)"
  by (simp add: load_models_def Let_def split: option.splits)

section \<open>Claims\<close>

text \<open>
  C1. At each of the three sampling sites of the SAC agent (\<open>choose_action\<close>, and the
  next-state and the fresh-action samples inside \<open>update\<close>), the returned log-probability
  is the Normal log-density of the pre-squash sample \<open>x\<close> minus the sum, over the action
  dimensions \<open>d\<close>, of \<open>ln (action_scale * (1 - tanh(x_d)^2) + 1e-6)\<close>. The stabiliser
  keeps every subtracted term between \<open>ln 1e-6\<close> and \<open>ln (action_scale + 1e-6)\<close> whatever
  \<open>x_d\<close> is, so the result stays finite as \<open>tanh(x_d)\<close> approaches 1 or -1. The actor
  returns a mean and a standard deviation per action dimension, and the scale is not
  negative. The statement is over the reals.
\<close>

theorem sac_log_prob_closed_form:
  assumes "\<forall>theta s. length (fst (actor_forward N theta s)) = length eps
                   \<and> length (snd (actor_forward N theta s)) = length eps"
    and "0 \<le> action_scale ag"
  shows "(let out = actor_forward N (actor ag) st in
            snd (choose_action N ag st eps)
              = closed_form_log_prob (action_scale ag) (fst out) (snd out) (rsample (fst out) (snd out) eps))
       \<and> (let out = actor_forward N (actor ag) (next_state row) in
            snd (next_action N ag row eps)
              = closed_form_log_prob (action_scale ag) (fst out) (snd out) (rsample (fst out) (snd out) eps))
       \<and> (let out = actor_forward N theta (state row) in
            snd (new_action N ag theta row eps)
              = closed_form_log_prob (action_scale ag) (fst out) (snd out) (rsample (fst out) (snd out) eps))
       \<and> (\<forall>x. ln (1 / 10 ^ 6) \<le> ln (action_scale ag * (1 - (tanh x)\<^sup>2) + 1 / 10 ^ 6)
              \<and> ln (action_scale ag * (1 - (tanh x)\<^sup>2) + 1 / 10 ^ 6) \<le> ln (action_scale ag + 1 / 10 ^ 6))"
proof -
  have site: "snd (sample_action (action_scale ag) (action_bias ag) (actor_forward N th s) eps)
       = closed_form_log_prob (action_scale ag) (fst (actor_forward N th s)) (snd (actor_forward N th s))
           (rsample (fst (actor_forward N th s)) (snd (actor_forward N th s)) eps)" for th s
  proof -
    have l: "length (fst (actor_forward N th s)) = length eps"
            "length (snd (actor_forward N th s)) = length eps"
      using assms(1) by simp_all
    show ?thesis
      using sample_action_log_prob[OF l, of "action_scale ag" "action_bias ag"] by simp
  qed
  have a: "let out = actor_forward N (actor ag) st in
            snd (choose_action N ag st eps)
              = closed_form_log_prob (action_scale ag) (fst out) (snd out) (rsample (fst out) (snd out) eps)"
    unfolding Let_def choose_action_def by (rule site)
  have b: "let out = actor_forward N (actor ag) (next_state row) in
            snd (next_action N ag row eps)
              = closed_form_log_prob (action_scale ag) (fst out) (snd out) (rsample (fst out) (snd out) eps)"
    unfolding Let_def next_action_def by (rule site)
  have c: "let out = actor_forward N theta (state row) in
            snd (new_action N ag theta row eps)
              = closed_form_log_prob (action_scale ag) (fst out) (snd out) (rsample (fst out) (snd out) eps)"
    unfolding Let_def new_action_def by (rule site)
  have d: "\<forall>x. ln (1 / 10 ^ 6) \<le> ln (action_scale ag * (1 - (tanh x)\<^sup>2) + 1 / 10 ^ 6)
              \<and> ln (action_scale ag * (1 - (tanh x)\<^sup>2) + 1 / 10 ^ 6) \<le> ln (action_scale ag + 1 / 10 ^ 6)"
    using jacobian_log_bounds[OF assms(2)] by blast
  from a b c d show ?thesis by blast
qed

text \<open>An instance of C1, at a two-dimensional action.\<close>

theorem sac_log_prob_closed_form_witness:
  "(\<forall>theta s. length (fst (actor_forward ex_sac_networks theta s)) = length [0, 1 :: real]
             \<and> length (snd (actor_forward ex_sac_networks theta s)) = length [0, 1 :: real])
   \<and> 0 \<le> action_scale ex_sac_agent
   \<and> snd (choose_action ex_sac_networks ex_sac_agent [1, 1] [0, 1])
       = closed_form_log_prob 1 [3, 2] [1, 2] [3, 4]
   \<and> snd (next_action ex_sac_networks ex_sac_agent ex_row [0, 1])
       = closed_form_log_prob 1 [3, 2] [1, 2] [3, 4]
   \<and> snd (new_action ex_sac_networks ex_sac_agent [[5]] ex_row [0, 1])
       = closed_form_log_prob 1 [5, 1] [1, 2] [5, 3]
   \<and> ln (1 / 10 ^ 6) \<le> ln (action_scale ex_sac_agent * (1 - (tanh 20)\<^sup>2) + 1 / 10 ^ 6)"
proof -
  have h1: "\<forall>theta s. length (fst (actor_forward ex_sac_networks theta s)) = length [0, 1 :: real]
             \<and> length (snd (actor_forward ex_sac_networks theta s)) = length [0, 1 :: real]"
    by (simp add: ex_sac_networks_def)
  have h2: "0 \<le> action_scale ex_sac_agent"
    by (simp add: ex_sac_agent_def SACAgent_init_def)
  note inst = sac_log_prob_closed_form[OF h1 h2, of "[1, 1]" ex_row "[[5]]"]
  have sc: "action_scale ex_sac_agent = 1" "actor ex_sac_agent = [[1], [2]]"
    by (simp_all add: ex_sac_agent_def SACAgent_init_def)
  have a: "snd (choose_action ex_sac_networks ex_sac_agent [1, 1] [0, 1])
       = closed_form_log_prob 1 [3, 2] [1, 2] [3, 4]"
    using inst by (simp add: Let_def sc ex_sac_networks_def rsample_def)
  have b: "snd (next_action ex_sac_networks ex_sac_agent ex_row [0, 1])
       = closed_form_log_prob 1 [3, 2] [1, 2] [3, 4]"
    using inst by (simp add: Let_def sc ex_sac_networks_def rsample_def ex_row_def)
  have c: "snd (new_action ex_sac_networks ex_sac_agent [[5]] ex_row [0, 1])
       = closed_form_log_prob 1 [5, 1] [1, 2] [5, 3]"
    using inst by (simp add: Let_def sc ex_sac_networks_def rsample_def ex_row_def)
  have d: "ln (1 / 10 ^ 6) \<le> ln (action_scale ex_sac_agent * (1 - (tanh 20)\<^sup>2) + 1 / 10 ^ 6)"
    using inst by blast
  from h1 h2 a b c d show ?thesis by blast
qed

text \<open>
  C2. In an SAC update that passes the buffer-size gate, the regression target of a batch
  row is \<open>reward + gamma * b\<close>, where \<open>b\<close> is the smaller of the two target-critic outputs
  at the next state and the sampled next action, minus \<open>exp log_alpha\<close> times that
  action's log-probability, and \<open>b\<close> is replaced by zero on a row whose done flag is set.
  The critic's optimizer step is taken on the loss against these targets; they are
  computed from the agent as it is before the step and are constants of the loss (no
  gradient is tracked through them).
\<close>

theorem sac_critic_target:
  assumes "\<not> len_memory (memory ag) < batch_size ag"
  shows "target_Q_row N ag row eps
           = reward row + gamma ag * (if done_flag row then 0 else bootstrapped_value N ag row eps)
       \<and> bootstrapped_value N ag row eps
           = min (fst (critic_forward N (critic_target ag) (next_state row) (fst (next_action N ag row eps))))
                 (snd (critic_forward N (critic_target ag) (next_state row) (fst (next_action N ag row eps))))
             - exp (log_alpha ag) * snd (next_action N ag row eps)
       \<and> (critic (update N ag batch eps_next eps_new),
          critic_optimizer (update N ag batch eps_next eps_new))
           = critic_optimizer_step N
               (critic_loss N batch (map2 (spec_critic_target N ag) batch eps_next))
               (critic ag, critic_optimizer ag)"
proof -
  have a: "target_Q_row N ag row eps
           = reward row + gamma ag * (if done_flag row then 0 else bootstrapped_value N ag row eps)"
    using target_Q_row_spec[of N ag row eps] by (simp add: spec_critic_target_def)
  have b: "bootstrapped_value N ag row eps
           = min (fst (critic_forward N (critic_target ag) (next_state row) (fst (next_action N ag row eps))))
                 (snd (critic_forward N (critic_target ag) (next_state row) (fst (next_action N ag row eps))))
             - exp (log_alpha ag) * snd (next_action N ag row eps)"
    by (simp add: bootstrapped_value_def Let_def)
  have t: "target_Q_row N ag = spec_critic_target N ag"
    by (intro ext) (rule target_Q_row_spec)
  have c: "(critic (update N ag batch eps_next eps_new),
          critic_optimizer (update N ag batch eps_next eps_new))
           = critic_optimizer_step N
               (critic_loss N batch (map2 (spec_critic_target N ag) batch eps_next))
               (critic ag, critic_optimizer ag)"
    unfolding update_gate_open[OF assms]
    by (simp only: update_target_fields update_alpha_fields update_actor_fields
        update_critic_fields t)
  from a b c show ?thesis by blast
qed

text \<open>An instance of C2: a batch of one running and one terminal row.\<close>

theorem sac_critic_target_witness:
  "\<not> len_memory (memory ex_sac_agent) < batch_size ex_sac_agent
   \<and> target_Q_row ex_sac_networks ex_sac_agent ex_row_done [0, 1] = 1
   \<and> target_Q_row ex_sac_networks ex_sac_agent ex_row [0, 1]
       = 1 + bootstrapped_value ex_sac_networks ex_sac_agent ex_row [0, 1]
   \<and> critic (update ex_sac_networks ex_sac_agent [ex_row, ex_row_done] [[0, 1], [0, 1]] [[0, 1], [0, 1]])
       = [[4], [5]]"
proof -
  have h: "\<not> len_memory (memory ex_sac_agent) < batch_size ex_sac_agent"
    by (simp add: ex_sac_agent_def SACAgent_init_def len_memory_def)
  have g: "gamma ex_sac_agent = 1" "critic ex_sac_agent = [[3], [4]]"
    by (simp_all add: ex_sac_agent_def SACAgent_init_def)
  have a: "target_Q_row ex_sac_networks ex_sac_agent ex_row_done [0, 1] = 1"
    using sac_critic_target[OF h, of ex_sac_networks ex_row_done "[0, 1]"]
    by (simp add: ex_row_done_def)
  have b: "target_Q_row ex_sac_networks ex_sac_agent ex_row [0, 1]
       = 1 + bootstrapped_value ex_sac_networks ex_sac_agent ex_row [0, 1]"
    using sac_critic_target[OF h, of ex_sac_networks ex_row "[0, 1]"]
    by (simp add: ex_row_def g)
  have "fst (critic (update ex_sac_networks ex_sac_agent [ex_row, ex_row_done] [[0, 1], [0, 1]] [[0, 1], [0, 1]]),
          critic_optimizer (update ex_sac_networks ex_sac_agent [ex_row, ex_row_done] [[0, 1], [0, 1]] [[0, 1], [0, 1]]))
       = [[4], [5]]"
    using sac_critic_target[OF h, of ex_sac_networks ex_row "[0, 1]" "[ex_row, ex_row_done]"
        "[[0, 1], [0, 1]]" "[[0, 1], [0, 1]]"]
    by (simp add: g ex_sac_networks_def)
  then have c: "critic (update ex_sac_networks ex_sac_agent [ex_row, ex_row_done] [[0, 1], [0, 1]] [[0, 1], [0, 1]])
       = [[4], [5]]" by simp
  from h a b c show ?thesis by blast
qed




text \<open>
  C4. The action returned by the TD3 agent's \<open>choose_action\<close> is not always clamped to the
  bounds the environment declares for each action dimension: line 105 clamps every entry
  to \<open>min_action[0]\<close> and \<open>max_action[0]\<close>. With the bounds \<open>[-2, 2]\<close> for the first and
  \<open>[-1, 1]\<close> for the second dimension, an actor output \<open>[1, 2]\<close> and a noise draw of
  \<open>0.1\<close>, the call returns \<open>[1.1, 2]\<close>, whose second entry is outside its dimension's
  bounds.
\<close>

theorem td3_choose_action_outside_bounds:
  "td3_min_action ex_td3_agent = [- 2, - 1] \<and> td3_max_action ex_td3_agent = [2, 1]
   \<and> td3_actor_forward ex_td3_networks (net_params (td3_actor ex_td3_agent)) [0, 1] = [1, 2]
   \<and> td3_choose_action ex_td3_networks ex_td3_agent [0, 1] True [0, 0] (1 / 10)
       = Inr ([11 / 10, 2], ex_td3_agent\<lparr>td3_time_step := 1\<rparr>)
   \<and> clamp_to_bounds [1 + 1 / 10, 2 + 1 / 10] (td3_min_action ex_td3_agent) (td3_max_action ex_td3_agent)
       = [11 / 10, 1]
   \<and> \<not> within_bounds [11 / 10, 2] (td3_min_action ex_td3_agent) (td3_max_action ex_td3_agent)"
  by (simp add: td3_choose_action_def ex_td3_networks_def ex_td3_agent_def ex_net_def
      clamp_def clamp_to_bounds_def within_bounds_def Let_def)

text \<open>
  C5. For every parameter tensor the soft update sets the target to
  \<open>tau * online + (1 - tau) * target\<close> entry by entry: in the SAC loop (\<open>soft_update\<close>) and
  in the TD3 method \<open>update_network_parameters\<close>. With \<open>tau = 0\<close> every target parameter
  is unchanged; with \<open>tau = 1\<close> every target parameter becomes the online parameter, which
  is how the TD3 constructor initialises its three targets (the SAC constructor loads the
  critic's parameters into the target critic). Online and target networks have the same
  parameter names and shapes.
\<close>

theorem soft_update_polyak:
  assumes "same_shape online target"
    and "same_architecture (net_params (td3_critic_1 ag)) (net_params (td3_target_critic_1 ag))"
    and "same_architecture (net_params (td3_critic_2 ag)) (net_params (td3_target_critic_2 ag))"
    and "same_architecture (net_params (td3_actor ag)) (net_params (td3_target_actor ag))"
  shows "(\<forall>j<length target. \<forall>i<length (target ! j).
            soft_update tau_v online target ! j ! i
              = tau_v * online ! j ! i + (1 - tau_v) * target ! j ! i)
       \<and> soft_update 0 online target = target
       \<and> soft_update 1 online target = online
       \<and> update_network_parameters ag (Some tau_v) =
           Inr (ag\<lparr>td3_target_critic_1 := load_state_dict (td3_target_critic_1 ag)
                      (polyak_dict tau_v (net_params (td3_critic_1 ag)) (net_params (td3_target_critic_1 ag))),
                   td3_target_critic_2 := load_state_dict (td3_target_critic_2 ag)
                      (polyak_dict tau_v (net_params (td3_critic_2 ag)) (net_params (td3_target_critic_2 ag))),
                   td3_target_actor := load_state_dict (td3_target_actor ag)
                      (polyak_dict tau_v (net_params (td3_actor ag)) (net_params (td3_target_actor ag)))\<rparr>)
       \<and> update_network_parameters ag (Some 0) = Inr ag
       \<and> update_network_parameters ag (Some 1) =
           Inr (ag\<lparr>td3_target_critic_1 := load_state_dict (td3_target_critic_1 ag) (net_params (td3_critic_1 ag)),
                   td3_target_critic_2 := load_state_dict (td3_target_critic_2 ag) (net_params (td3_critic_2 ag)),
                   td3_target_actor := load_state_dict (td3_target_actor ag) (net_params (td3_actor ag))\<rparr>)
       \<and> Agent_init tau_arg action_high action_low gamma_arg update_actor_interval warmup_arg
             n_actions max_size batch_size_arg noise_arg
             (td3_actor ag) (td3_critic_1 ag) (td3_critic_2 ag)
             (td3_target_actor ag) (td3_target_critic_1 ag) (td3_target_critic_2 ag) =
           Inr \<lparr>td3_gamma = gamma_arg, td3_tau = tau_arg,
                td3_max_action = action_high, td3_min_action = action_low,
                td3_memory = \<lparr>mem_size = max_size, mem_counter = 0\<rparr>,
                td3_batch_size = batch_size_arg,
                td3_learn_step_counter = 0, td3_time_step = 0,
                td3_warmup = warmup_arg, td3_n_actions = n_actions,
                td3_update_action_iter = update_actor_interval,
                td3_actor = td3_actor ag, td3_critic_1 = td3_critic_1 ag, td3_critic_2 = td3_critic_2 ag,
                td3_target_actor = load_state_dict (td3_target_actor ag) (net_params (td3_actor ag)),
                td3_target_critic_1 = load_state_dict (td3_target_critic_1 ag) (net_params (td3_critic_1 ag)),
                td3_target_critic_2 = load_state_dict (td3_target_critic_2 ag) (net_params (td3_critic_2 ag)),
                td3_noise = noise_arg\<rparr>
       \<and> critic_target (SACAgent_init sac_n_actions alpha_arg sac_gamma sac_tau sac_max_size sac_batch_size
                            action_scale_arg action_bias_arg target_entropy_arg actor_init critic_init)
           = critic (SACAgent_init sac_n_actions alpha_arg sac_gamma sac_tau sac_max_size sac_batch_size
                            action_scale_arg action_bias_arg target_entropy_arg actor_init critic_init)"
proof -
  have general: "update_network_parameters ag (Some t) =
           Inr (ag\<lparr>td3_target_critic_1 := load_state_dict (td3_target_critic_1 ag)
                      (polyak_dict t (net_params (td3_critic_1 ag)) (net_params (td3_target_critic_1 ag))),
                   td3_target_critic_2 := load_state_dict (td3_target_critic_2 ag)
                      (polyak_dict t (net_params (td3_critic_2 ag)) (net_params (td3_target_critic_2 ag))),
                   td3_target_actor := load_state_dict (td3_target_actor ag)
                      (polyak_dict t (net_params (td3_actor ag)) (net_params (td3_target_actor ag)))\<rparr>)" for t
    unfolding update_network_parameters_def
    by (simp add: mix_state_dict_same[OF assms(2)] mix_state_dict_same[OF assms(3)]
        mix_state_dict_same[OF assms(4)])
  have zero: "update_network_parameters ag (Some 0) = Inr ag"
    by (simp add: general polyak_dict_zero[OF assms(2)] polyak_dict_zero[OF assms(3)]
        polyak_dict_zero[OF assms(4)] load_state_dict_def)
  have one: "update_network_parameters ag (Some 1) =
           Inr (ag\<lparr>td3_target_critic_1 := load_state_dict (td3_target_critic_1 ag) (net_params (td3_critic_1 ag)),
                   td3_target_critic_2 := load_state_dict (td3_target_critic_2 ag) (net_params (td3_critic_2 ag)),
                   td3_target_actor := load_state_dict (td3_target_actor ag) (net_params (td3_actor ag))\<rparr>)"
    by (simp add: general polyak_dict_one[OF assms(2)] polyak_dict_one[OF assms(3)]
        polyak_dict_one[OF assms(4)])
  have elt: "\<forall>j<length target. \<forall>i<length (target ! j).
            soft_update tau_v online target ! j ! i
              = tau_v * online ! j ! i + (1 - tau_v) * target ! j ! i"
    using soft_update_nth[OF assms(1)] by blast
  have sac: "critic_target (SACAgent_init sac_n_actions alpha_arg sac_gamma sac_tau sac_max_size sac_batch_size
                            action_scale_arg action_bias_arg target_entropy_arg actor_init critic_init)
           = critic (SACAgent_init sac_n_actions alpha_arg sac_gamma sac_tau sac_max_size sac_batch_size
                            action_scale_arg action_bias_arg target_entropy_arg actor_init critic_init)"
    by (simp add: SACAgent_init_def Let_def)
  show ?thesis
    apply (intro conjI)
    subgoal by (rule elt)
    subgoal by (rule soft_update_zero[OF assms(1)])
    subgoal by (rule soft_update_one[OF assms(1)])
    subgoal by (rule general)
    subgoal by (rule zero)
    subgoal by (rule one)
    subgoal by (rule Agent_init_hard_copy[OF assms(2) assms(3) assms(4)])
    subgoal by (rule sac)
    done
qed

text \<open>An instance of C5: two tensors of a critic, and the TD3 agent \<open>ex_td3_agent\<close>.\<close>

theorem soft_update_polyak_witness:
  "same_shape [[2, 4], [6]] [[0, 8], [2]]
   \<and> same_architecture (net_params (td3_critic_1 ex_td3_agent)) (net_params (td3_target_critic_1 ex_td3_agent))
   \<and> same_architecture (net_params (td3_critic_2 ex_td3_agent)) (net_params (td3_target_critic_2 ex_td3_agent))
   \<and> same_architecture (net_params (td3_actor ex_td3_agent)) (net_params (td3_target_actor ex_td3_agent))
   \<and> soft_update (1 / 4) [[2, 4], [6]] [[0, 8], [2]] ! 0 ! 1 = 7
   \<and> soft_update 0 [[2, 4], [6]] [[0, 8], [2]] = [[0, 8], [2]]
   \<and> soft_update 1 [[2, 4], [6]] [[0, 8], [2]] = [[2, 4], [6]]
   \<and> update_network_parameters ex_td3_agent (Some 0) = Inr ex_td3_agent
   \<and> update_network_parameters ex_td3_agent (Some 1) =
       Inr (ex_td3_agent\<lparr>td3_target_critic_1 := ex_net 2, td3_target_critic_2 := ex_net 3,
                         td3_target_actor := ex_net 1\<rparr>)
   \<and> Agent_init (1 / 2) [2, 1] [- 2, - 1] 1 2 1 2 5 1 (1 / 10)
         (ex_net 1) (ex_net 2) (ex_net 3) (ex_net 4) (ex_net 5) (ex_net 6)
       = Inr (ex_td3_agent\<lparr>td3_memory := \<lparr>mem_size = 5, mem_counter = 0\<rparr>,
                            td3_target_actor := ex_net 1, td3_target_critic_1 := ex_net 2,
                            td3_target_critic_2 := ex_net 3\<rparr>)"
proof -
  have h1: "same_shape [[2, 4], [6]] [[0, 8], [2]]"
    by (simp add: same_shape_def)
  have h2: "same_architecture (net_params (td3_critic_1 ex_td3_agent)) (net_params (td3_target_critic_1 ex_td3_agent))"
    by (simp add: same_architecture_def same_shape_def ex_td3_agent_def ex_net_def)
  have h3: "same_architecture (net_params (td3_critic_2 ex_td3_agent)) (net_params (td3_target_critic_2 ex_td3_agent))"
    by (simp add: same_architecture_def same_shape_def ex_td3_agent_def ex_net_def)
  have h4: "same_architecture (net_params (td3_actor ex_td3_agent)) (net_params (td3_target_actor ex_td3_agent))"
    by (simp add: same_architecture_def same_shape_def ex_td3_agent_def ex_net_def)
  note inst = soft_update_polyak[OF h1 h2 h3 h4, of "1 / 4" "1 / 2" "[2, 1]" "[- 2, - 1]" 1 2 1 2 5 1
      "1 / 10" 2 "2 / 5" 1 "1 / 2" 10 1 1 0 None "[[1], [2]]" "[[3], [4]]"]
  have e: "soft_update (1 / 4) [[2, 4], [6]] [[0, 8], [2]] ! 0 ! 1 = 7"
    using inst by (simp add: polyak_def)
  have l: "load_state_dict (ex_net a) (net_params (ex_net b)) = ex_net b" for a b
    by (simp add: load_state_dict_def ex_net_def)
  have o: "update_network_parameters ex_td3_agent (Some 1) =
       Inr (ex_td3_agent\<lparr>td3_target_critic_1 := ex_net 2, td3_target_critic_2 := ex_net 3,
                         td3_target_actor := ex_net 1\<rparr>)"
    using inst by (simp add: ex_td3_agent_def l)
  have n: "td3_actor ex_td3_agent = ex_net 1" "td3_critic_1 ex_td3_agent = ex_net 2"
    "td3_critic_2 ex_td3_agent = ex_net 3" "td3_target_actor ex_td3_agent = ex_net 4"
    "td3_target_critic_1 ex_td3_agent = ex_net 5" "td3_target_critic_2 ex_td3_agent = ex_net 6"
    by (simp_all add: ex_td3_agent_def)
  have i: "Agent_init (1 / 2) [2, 1] [- 2, - 1] 1 2 1 2 5 1 (1 / 10)
         (ex_net 1) (ex_net 2) (ex_net 3) (ex_net 4) (ex_net 5) (ex_net 6)
       = Inr (ex_td3_agent\<lparr>td3_memory := \<lparr>mem_size = 5, mem_counter = 0\<rparr>,
                            td3_target_actor := ex_net 1, td3_target_critic_1 := ex_net 2,
                            td3_target_critic_2 := ex_net 3\<rparr>)"
    using inst unfolding n by (simp add: l ex_td3_agent_def)
  show ?thesis
    apply (intro conjI)
    subgoal by (rule h1)
    subgoal by (rule h2)
    subgoal by (rule h3)
    subgoal by (rule h4)
    subgoal by (rule e)
    subgoal using inst by blast
    subgoal using inst by blast
    subgoal using inst by blast
    subgoal by (rule o)
    subgoal by (rule i)
    done
qed

text \<open>
  C6, as stated: a TD3 \<open>learn\<close> call made while the buffer holds fewer than
  \<open>10 * batch_size\<close> transitions changes nothing. The gate of line 134 tests the write
  counter \<open>mem_counter\<close>, which keeps growing when the buffer is full. With a capacity of
  5, ten transitions written and a batch size of 1, the buffer holds 5 transitions, fewer
  than 10, and \<open>learn\<close> steps the critics.
\<close>

theorem td3_learn_small_capacity_counterexample:
  "mem_size (td3_memory ex_td3_agent) = 5 \<and> mem_counter (td3_memory ex_td3_agent) = 10
   \<and> td3_batch_size ex_td3_agent = 1
   \<and> len_memory (td3_memory ex_td3_agent) < 10 * td3_batch_size ex_td3_agent
   \<and> td3_critic_1 (snd (learn ex_td3_networks ex_td3_agent [ex_row] 0))
       = \<lparr>net_params = [(''weight'', [3, 5]), (''bias'', [3])], net_optimizer = []\<rparr>
   \<and> td3_critic_1 (snd (learn ex_td3_networks ex_td3_agent [ex_row] 0)) \<noteq> td3_critic_1 ex_td3_agent"
proof -
  have g: "\<not> mem_counter (td3_memory ex_td3_agent) < td3_batch_size ex_td3_agent * 10"
    and lo: "td3_min_action ex_td3_agent = - 2 # [- 1]" and hi: "td3_max_action ex_td3_agent = 2 # [1]"
    by (simp_all add: ex_td3_agent_def)
  have c: "td3_critic_1 (snd (learn ex_td3_networks ex_td3_agent [ex_row] 0))
       = \<lparr>net_params = [(''weight'', [3, 5]), (''bias'', [3])], net_optimizer = []\<rparr>"
    unfolding learn_critic_1(1)[OF g lo hi] learn_critics_fields
    by (simp add: ex_td3_networks_def ex_td3_agent_def ex_net_def)
  have d: "td3_critic_1 ex_td3_agent = \<lparr>net_params = [(''weight'', [2, 4]), (''bias'', [2])], net_optimizer = []\<rparr>"
    by (simp add: ex_td3_agent_def ex_net_def)
  have m: "mem_size (td3_memory ex_td3_agent) = 5 \<and> mem_counter (td3_memory ex_td3_agent) = 10
      \<and> td3_batch_size ex_td3_agent = 1
      \<and> len_memory (td3_memory ex_td3_agent) < 10 * td3_batch_size ex_td3_agent"
    by (simp add: ex_td3_agent_def len_memory_def)
  from c d have "td3_critic_1 (snd (learn ex_td3_networks ex_td3_agent [ex_row] 0)) \<noteq> td3_critic_1 ex_td3_agent"
    by simp
  with m c show ?thesis by blast
qed

text \<open>
  C6, amended. An SAC \<open>update\<close> call made while \<open>len(memory)\<close> is below \<open>batch_size\<close>,
  and a TD3 \<open>learn\<close> call made while the write counter \<open>mem_counter\<close> is below
  \<open>10 * batch_size\<close>, returns without raising and leaves the agent (its network and
  target parameters, optimizer states and entropy coefficient) exactly as it was. For a
  TD3 buffer whose capacity is at least \<open>10 * batch_size\<close> this is every call made
  while the buffer holds fewer than \<open>10 * batch_size\<close> transitions.
\<close>

theorem update_below_threshold_noop:
  "(len_memory (memory ag) < batch_size ag \<longrightarrow> update N ag batch eps_next eps_new = ag)
   \<and> (mem_counter (td3_memory tg) < td3_batch_size tg * 10 \<longrightarrow> learn M tg tbatch eps = (None, tg))
   \<and> (td3_batch_size tg * 10 \<le> mem_size (td3_memory tg)
        \<and> len_memory (td3_memory tg) < td3_batch_size tg * 10
      \<longrightarrow> learn M tg tbatch eps = (None, tg))"
  by (auto simp: update_def learn_def len_memory_def)

text \<open>An instance of the amended C6: a fresh SAC agent and a TD3 agent with three transitions.\<close>

theorem update_below_threshold_noop_witness:
  "len_memory (memory ex_sac_fresh) < batch_size ex_sac_fresh
   \<and> update ex_sac_networks ex_sac_fresh [ex_row] [[0, 1]] [[0, 1]] = ex_sac_fresh
   \<and> mem_counter (td3_memory ex_td3_early) < td3_batch_size ex_td3_early * 10
   \<and> td3_batch_size ex_td3_early * 10 \<le> mem_size (td3_memory ex_td3_early)
   \<and> len_memory (td3_memory ex_td3_early) < td3_batch_size ex_td3_early * 10
   \<and> learn ex_td3_networks ex_td3_early [ex_row] 0 = (None, ex_td3_early)"
proof -
  have h1: "len_memory (memory ex_sac_fresh) < batch_size ex_sac_fresh"
    by (simp add: ex_sac_fresh_def SACAgent_init_def len_memory_def)
  have h2: "mem_counter (td3_memory ex_td3_early) < td3_batch_size ex_td3_early * 10"
    by (simp add: ex_td3_early_def ex_td3_agent_def)
  have h3: "td3_batch_size ex_td3_early * 10 \<le> mem_size (td3_memory ex_td3_early)"
    by (simp add: ex_td3_early_def ex_td3_agent_def)
  have h4: "len_memory (td3_memory ex_td3_early) < td3_batch_size ex_td3_early * 10"
    by (simp add: ex_td3_early_def ex_td3_agent_def len_memory_def)
  note inst = update_below_threshold_noop[of ex_sac_fresh ex_sac_networks "[ex_row]" "[[0, 1]]" "[[0, 1]]"
      ex_td3_early ex_td3_networks "[ex_row]" 0]
  from inst h1 have a: "update ex_sac_networks ex_sac_fresh [ex_row] [[0, 1]] [[0, 1]] = ex_sac_fresh"
    by blast
  from inst h3 h4 have b: "learn ex_td3_networks ex_td3_early [ex_row] 0 = (None, ex_td3_early)"
    by blast
  from h1 h2 h3 h4 a b show ?thesis by blast
qed

text \<open>
  C7. A TD3 \<open>learn\<close> call that passes the gate steps both critics and counts the step.
  When the new count of critic updates is not a multiple of \<open>update_actor_interval\<close>, the
  call ends there: the actor and the three target networks are as before. When it is a
  multiple, the actor's optimizer step is taken and, right after it, the soft update of
  all three target networks with the agent's \<open>tau\<close>: the two happen together and on no
  other call. In SAC every \<open>update\<close> call that passes the gate ends with the soft update
  of the target critic from the freshly stepped critic. The interval is not zero (a zero
  interval raises ZeroDivisionError at line 182), and the bounds are not empty.
\<close>

theorem td3_delayed_sac_every_step:
  assumes g: "\<not> mem_counter (td3_memory tg) < td3_batch_size tg * 10"
    and lo: "td3_min_action tg = lo # los" and hi: "td3_max_action tg = hi # his"
    and k: "td3_update_action_iter tg \<noteq> 0"
    and sg: "\<not> len_memory (memory ag) < batch_size ag"
  shows "(let ag1 = learn_critics M tg tbatch eps lo hi; ag2 = learn_actor M ag1 tbatch in
      td3_learn_step_counter (snd (learn M tg tbatch eps)) = td3_learn_step_counter tg + 1
    \<and> ((td3_learn_step_counter tg + 1) mod td3_update_action_iter tg \<noteq> 0 \<longrightarrow>
          learn M tg tbatch eps = (None, ag1)
          \<and> td3_actor ag1 = td3_actor tg \<and> td3_target_actor ag1 = td3_target_actor tg
          \<and> td3_target_critic_1 ag1 = td3_target_critic_1 tg
          \<and> td3_target_critic_2 ag1 = td3_target_critic_2 tg)
    \<and> ((td3_learn_step_counter tg + 1) mod td3_update_action_iter tg = 0 \<longrightarrow>
          td3_actor (snd (learn M tg tbatch eps))
            = td3_optimizer_step M (td3_actor_loss M ag1 tbatch) (td3_actor tg)
          \<and> learn M tg tbatch eps
            = (case update_network_parameters ag2 (Some (td3_tau tg)) of
                 Inl e \<Rightarrow> (Some e, ag2)
               | Inr ag3 \<Rightarrow> (None, ag3))
          \<and> (same_architecture (net_params (td3_critic_1 ag2)) (net_params (td3_target_critic_1 tg))
               \<and> same_architecture (net_params (td3_critic_2 ag2)) (net_params (td3_target_critic_2 tg))
               \<and> same_architecture (net_params (td3_actor ag2)) (net_params (td3_target_actor tg))
             \<longrightarrow> fst (learn M tg tbatch eps) = None
               \<and> td3_target_critic_1 (snd (learn M tg tbatch eps))
                   = load_state_dict (td3_target_critic_1 tg)
                       (polyak_dict (td3_tau tg) (net_params (td3_critic_1 ag2))
                          (net_params (td3_target_critic_1 tg)))
               \<and> td3_target_critic_2 (snd (learn M tg tbatch eps))
                   = load_state_dict (td3_target_critic_2 tg)
                       (polyak_dict (td3_tau tg) (net_params (td3_critic_2 ag2))
                          (net_params (td3_target_critic_2 tg)))
               \<and> td3_target_actor (snd (learn M tg tbatch eps))
                   = load_state_dict (td3_target_actor tg)
                       (polyak_dict (td3_tau tg) (net_params (td3_actor ag2))
                          (net_params (td3_target_actor tg))))))
    \<and> critic_target (update N ag batch eps_next eps_new)
        = soft_update (tau ag) (critic (update N ag batch eps_next eps_new)) (critic_target ag)"
proof -
  define ag1 where "ag1 = learn_critics M tg tbatch eps lo hi"
  define ag2 where "ag2 = learn_actor M ag1 tbatch"
  let ?c = "(td3_learn_step_counter tg + 1) mod td3_update_action_iter tg"
  have f1: "td3_actor ag1 = td3_actor tg" "td3_target_actor ag1 = td3_target_actor tg"
    "td3_target_critic_1 ag1 = td3_target_critic_1 tg"
    "td3_target_critic_2 ag1 = td3_target_critic_2 tg" "td3_tau ag1 = td3_tau tg"
    unfolding ag1_def by (simp_all add: learn_critics_fields)
  have f2: "td3_actor ag2 = td3_optimizer_step M (td3_actor_loss M ag1 tbatch) (td3_actor tg)"
    "td3_target_actor ag2 = td3_target_actor tg"
    "td3_target_critic_1 ag2 = td3_target_critic_1 tg"
    "td3_target_critic_2 ag2 = td3_target_critic_2 tg" "td3_tau ag2 = td3_tau tg"
    unfolding ag2_def by (simp_all add: learn_actor_fields f1)
  have none: "update_network_parameters ag2 None = update_network_parameters ag2 (Some (td3_tau tg))"
    by (simp add: update_network_parameters_def f2)
  have skip: "learn M tg tbatch eps = (None, ag1)" if "?c \<noteq> 0"
    using that k unfolding learn_gate_open[OF g lo hi] ag1_def by (simp add: Let_def)
  have run: "learn M tg tbatch eps
            = (case update_network_parameters ag2 (Some (td3_tau tg)) of
                 Inl e \<Rightarrow> (Some e, ag2)
               | Inr ag3 \<Rightarrow> (None, ag3))" if "?c = 0"
    using that k unfolding learn_gate_open[OF g lo hi] ag1_def ag2_def none[unfolded ag2_def ag1_def, symmetric]
    by (simp add: Let_def)
  have act: "td3_actor (snd (learn M tg tbatch eps))
            = td3_optimizer_step M (td3_actor_loss M ag1 tbatch) (td3_actor tg)" if "?c = 0"
    unfolding run[OF that]
    by (auto simp: f2 dest: update_network_parameters_keeps split: sum.splits)
  have tgt: "fst (learn M tg tbatch eps) = None"
      "td3_target_critic_1 (snd (learn M tg tbatch eps))
         = load_state_dict (td3_target_critic_1 tg)
             (polyak_dict (td3_tau tg) (net_params (td3_critic_1 ag2))
                (net_params (td3_target_critic_1 tg)))"
      "td3_target_critic_2 (snd (learn M tg tbatch eps))
         = load_state_dict (td3_target_critic_2 tg)
             (polyak_dict (td3_tau tg) (net_params (td3_critic_2 ag2))
                (net_params (td3_target_critic_2 tg)))"
      "td3_target_actor (snd (learn M tg tbatch eps))
         = load_state_dict (td3_target_actor tg)
             (polyak_dict (td3_tau tg) (net_params (td3_actor ag2))
                (net_params (td3_target_actor tg)))"
    if c0: "?c = 0"
      and s: "same_architecture (net_params (td3_critic_1 ag2)) (net_params (td3_target_critic_1 tg))
            \<and> same_architecture (net_params (td3_critic_2 ag2)) (net_params (td3_target_critic_2 tg))
            \<and> same_architecture (net_params (td3_actor ag2)) (net_params (td3_target_actor tg))"
  proof -
    from s have s1: "same_architecture (net_params (td3_critic_1 ag2)) (net_params (td3_target_critic_1 ag2))"
      and s2: "same_architecture (net_params (td3_critic_2 ag2)) (net_params (td3_target_critic_2 ag2))"
      and s3: "same_architecture (net_params (td3_actor ag2)) (net_params (td3_target_actor ag2))"
      by (simp_all add: f2(2,3,4))
    have u: "update_network_parameters ag2 (Some (td3_tau tg)) =
           Inr (ag2\<lparr>td3_target_critic_1 := load_state_dict (td3_target_critic_1 tg)
                      (polyak_dict (td3_tau tg)
                         (net_params (td3_critic_1 ag2)) (net_params (td3_target_critic_1 tg))),
                   td3_target_critic_2 := load_state_dict (td3_target_critic_2 tg)
                      (polyak_dict (td3_tau tg)
                         (net_params (td3_critic_2 ag2)) (net_params (td3_target_critic_2 tg))),
                   td3_target_actor := load_state_dict (td3_target_actor tg)
                      (polyak_dict (td3_tau tg)
                         (net_params (td3_actor ag2)) (net_params (td3_target_actor tg)))\<rparr>)"
      using update_network_parameters_polyak[OF s1 s2 s3, of "Some (td3_tau tg)"]
      by (simp add: f2(2,3,4))
    show "fst (learn M tg tbatch eps) = None"
      unfolding run[OF c0] u by simp
    show "td3_target_critic_1 (snd (learn M tg tbatch eps))
         = load_state_dict (td3_target_critic_1 tg)
             (polyak_dict (td3_tau tg) (net_params (td3_critic_1 ag2))
                (net_params (td3_target_critic_1 tg)))"
      unfolding run[OF c0] u by simp
    show "td3_target_critic_2 (snd (learn M tg tbatch eps))
         = load_state_dict (td3_target_critic_2 tg)
             (polyak_dict (td3_tau tg) (net_params (td3_critic_2 ag2))
                (net_params (td3_target_critic_2 tg)))"
      unfolding run[OF c0] u by simp
    show "td3_target_actor (snd (learn M tg tbatch eps))
         = load_state_dict (td3_target_actor tg)
             (polyak_dict (td3_tau tg) (net_params (td3_actor ag2))
                (net_params (td3_target_actor tg)))"
      unfolding run[OF c0] u by simp
  qed
  have cnt: "td3_learn_step_counter (snd (learn M tg tbatch eps)) = td3_learn_step_counter tg + 1"
    by (rule learn_critic_1(3)[OF g lo hi])
  have sac: "critic_target (update N ag batch eps_next eps_new)
        = soft_update (tau ag) (critic (update N ag batch eps_next eps_new)) (critic_target ag)"
    by (rule sac_update_target[OF sg])
  show ?thesis
    unfolding Let_def ag1_def[symmetric] ag2_def[symmetric]
    apply (intro conjI impI)
    subgoal by (rule cnt)
    subgoal by (rule skip)
    subgoal by (rule f1)
    subgoal by (rule f1)
    subgoal by (rule f1)
    subgoal by (rule f1)
    subgoal by (rule act)
    subgoal by (rule run)
    subgoal by (rule tgt(1))
    subgoal by (rule tgt(2))
    subgoal by (rule tgt(3))
    subgoal by (rule tgt(4))
    subgoal by (rule sac)
    done
qed

text \<open>
  An instance of C7 with interval 2: a first learn step, which skips the actor and the
  targets, a second one, which updates both, and one SAC update.
\<close>

theorem td3_delayed_sac_every_step_witness:
  "\<not> mem_counter (td3_memory ex_td3_agent) < td3_batch_size ex_td3_agent * 10
   \<and> td3_min_action ex_td3_agent = - 2 # [- 1] \<and> td3_max_action ex_td3_agent = 2 # [1]
   \<and> td3_update_action_iter ex_td3_agent \<noteq> 0
   \<and> \<not> len_memory (memory ex_sac_agent) < batch_size ex_sac_agent
   \<and> (td3_learn_step_counter ex_td3_agent + 1) mod td3_update_action_iter ex_td3_agent \<noteq> 0
   \<and> td3_actor (snd (learn ex_td3_networks ex_td3_agent [ex_row] 0)) = ex_net 1
   \<and> td3_target_actor (snd (learn ex_td3_networks ex_td3_agent [ex_row] 0)) = ex_net 4
   \<and> td3_learn_step_counter (snd (learn ex_td3_networks ex_td3_agent [ex_row] 0)) = 1
   \<and> (td3_learn_step_counter ex_td3_due + 1) mod td3_update_action_iter ex_td3_due = 0
   \<and> td3_actor (snd (learn ex_td3_networks ex_td3_due [ex_row] 0))
       = \<lparr>net_params = [(''weight'', [2, 3]), (''bias'', [2])], net_optimizer = []\<rparr>
   \<and> td3_target_actor (snd (learn ex_td3_networks ex_td3_due [ex_row] 0))
       = \<lparr>net_params = [(''weight'', [3, 11 / 2]), (''bias'', [3])], net_optimizer = []\<rparr>
   \<and> critic_target (update ex_sac_networks ex_sac_agent [ex_row] [[0, 1]] [[0, 1]])
       = [[7 / 2], [9 / 2]]"
proof -
  have g: "\<not> mem_counter (td3_memory ex_td3_agent) < td3_batch_size ex_td3_agent * 10"
    and lo: "td3_min_action ex_td3_agent = - 2 # [- 1]" and hi: "td3_max_action ex_td3_agent = 2 # [1]"
    and k: "td3_update_action_iter ex_td3_agent \<noteq> 0"
    and c: "(td3_learn_step_counter ex_td3_agent + 1) mod td3_update_action_iter ex_td3_agent \<noteq> 0"
    by (simp_all add: ex_td3_agent_def)
  have g': "\<not> mem_counter (td3_memory ex_td3_due) < td3_batch_size ex_td3_due * 10"
    and lo': "td3_min_action ex_td3_due = - 2 # [- 1]" and hi': "td3_max_action ex_td3_due = 2 # [1]"
    and k': "td3_update_action_iter ex_td3_due \<noteq> 0"
    and c': "(td3_learn_step_counter ex_td3_due + 1) mod td3_update_action_iter ex_td3_due = 0"
    by (simp_all add: ex_td3_due_def ex_td3_agent_def)
  have sg: "\<not> len_memory (memory ex_sac_agent) < batch_size ex_sac_agent"
    by (simp add: ex_sac_agent_def SACAgent_init_def len_memory_def)
  note skip = td3_delayed_sac_every_step[OF g lo hi k sg, of ex_td3_networks "[ex_row]" 0
      ex_sac_networks "[ex_row]" "[[0, 1]]" "[[0, 1]]", unfolded Let_def]
  note due = td3_delayed_sac_every_step[OF g' lo' hi' k' sg, of ex_td3_networks "[ex_row]" 0
      ex_sac_networks "[ex_row]" "[[0, 1]]" "[[0, 1]]", unfolded Let_def]
  have nets: "td3_actor ex_td3_agent = ex_net 1" "td3_target_actor ex_td3_agent = ex_net 4"
    "td3_learn_step_counter ex_td3_agent = 0"
    by (simp_all add: ex_td3_agent_def)
  from skip c have s1: "learn ex_td3_networks ex_td3_agent [ex_row] 0
      = (None, learn_critics ex_td3_networks ex_td3_agent [ex_row] 0 (- 2) 2)"
    by blast
  have a1: "td3_actor (snd (learn ex_td3_networks ex_td3_agent [ex_row] 0)) = ex_net 1"
    and a2: "td3_target_actor (snd (learn ex_td3_networks ex_td3_agent [ex_row] 0)) = ex_net 4"
    and a3: "td3_learn_step_counter (snd (learn ex_td3_networks ex_td3_agent [ex_row] 0)) = 1"
    unfolding s1 by (simp_all add: learn_critics_fields nets)
  let ?ag2 = "learn_actor ex_td3_networks (learn_critics ex_td3_networks ex_td3_due [ex_row] 0 (- 2) 2) [ex_row]"
  have p: "net_params (td3_critic_1 ?ag2) = [(''weight'', [3, 5]), (''bias'', [3])]"
    "net_params (td3_critic_2 ?ag2) = [(''weight'', [4, 7]), (''bias'', [4])]"
    "net_params (td3_actor ?ag2) = [(''weight'', [2, 3]), (''bias'', [2])]"
    "td3_target_critic_1 ex_td3_due = ex_net 5" "td3_target_critic_2 ex_td3_due = ex_net 6"
    "td3_target_actor ex_td3_due = ex_net 4" "td3_tau ex_td3_due = 1 / 2"
    "td3_actor ex_td3_due = ex_net 1"
    by (simp_all add: learn_actor_fields learn_critics_fields ex_td3_due_def ex_td3_agent_def
        ex_td3_networks_def ex_net_def)
  have sa: "same_architecture (net_params (td3_critic_1 ?ag2)) (net_params (td3_target_critic_1 ex_td3_due))
       \<and> same_architecture (net_params (td3_critic_2 ?ag2)) (net_params (td3_target_critic_2 ex_td3_due))
       \<and> same_architecture (net_params (td3_actor ?ag2)) (net_params (td3_target_actor ex_td3_due))"
    unfolding p by (simp add: same_architecture_def same_shape_def ex_net_def)
  from due c' have b1: "td3_actor (snd (learn ex_td3_networks ex_td3_due [ex_row] 0))
       = td3_optimizer_step ex_td3_networks
           (td3_actor_loss ex_td3_networks (learn_critics ex_td3_networks ex_td3_due [ex_row] 0 (- 2) 2) [ex_row])
           (td3_actor ex_td3_due)"
    by blast
  from due c' sa have b2: "td3_target_actor (snd (learn ex_td3_networks ex_td3_due [ex_row] 0))
       = load_state_dict (td3_target_actor ex_td3_due)
           (polyak_dict (td3_tau ex_td3_due) (net_params (td3_actor ?ag2))
              (net_params (td3_target_actor ex_td3_due)))"
    by blast
  have b1': "td3_actor (snd (learn ex_td3_networks ex_td3_due [ex_row] 0))
       = \<lparr>net_params = [(''weight'', [2, 3]), (''bias'', [2])], net_optimizer = []\<rparr>"
    unfolding b1 p by (simp add: ex_td3_networks_def ex_net_def)
  have b2': "td3_target_actor (snd (learn ex_td3_networks ex_td3_due [ex_row] 0))
       = \<lparr>net_params = [(''weight'', [3, 11 / 2]), (''bias'', [3])], net_optimizer = []\<rparr>"
    unfolding b2 p by (simp add: load_state_dict_def polyak_dict_def polyak_def ex_net_def)
  from skip have s: "critic_target (update ex_sac_networks ex_sac_agent [ex_row] [[0, 1]] [[0, 1]])
       = soft_update (tau ex_sac_agent)
           (critic (update ex_sac_networks ex_sac_agent [ex_row] [[0, 1]] [[0, 1]]))
           (critic_target ex_sac_agent)"
    by blast
  have cr: "critic (update ex_sac_networks ex_sac_agent [ex_row] [[0, 1]] [[0, 1]]) = [[4], [5]]"
    unfolding update_gate_open[OF sg]
    using update_critic_fields(1)[of ex_sac_networks ex_sac_agent "[ex_row]" "[[0, 1]]"]
    by (simp add: update_target_fields update_alpha_fields update_actor_fields
        ex_sac_networks_def ex_sac_agent_def SACAgent_init_def)
  have s': "critic_target (update ex_sac_networks ex_sac_agent [ex_row] [[0, 1]] [[0, 1]])
       = [[7 / 2], [9 / 2]]"
    unfolding s cr by (simp add: ex_sac_agent_def SACAgent_init_def polyak_def)
  from g lo hi k sg c a1 a2 a3 c' b1' b2' s' show ?thesis by blast
qed

text \<open>
  C8. The entropy-coefficient loss of an SAC update is
  \<open>- mean (log_alpha * (log_prob + target_entropy))\<close>, the second factor detached: its
  value uses the log-probabilities computed in the forward pass, it does not depend on
  the actor's parameters (no gradient of it reaches the policy), and its derivative in
  \<open>log_alpha\<close> is \<open>- mean (log_prob + target_entropy)\<close>. In an update that passes the
  gate, the entropy coefficient's optimizer steps on this loss, with the log-probabilities
  of the fresh actions sampled from the actor as it is before its own step: on
  \<open>log_alpha\<close> itself while that is the tensor the optimizer was built on, and not on
  \<open>log_alpha\<close> once \<open>load_models\<close> has bound it to a loaded tensor, which then keeps its
  value. The actor's new parameters do not depend on that optimizer either. The target
  entropy is not changed by the update, and a constructor that receives no target entropy
  sets it to \<open>- n_actions\<close>, which is -2 for two actions.
\<close>

theorem sac_alpha_loss:
  assumes "\<not> len_memory (memory ag) < batch_size ag"
  shows "alpha_loss log_prob te theta0 la theta
           = - mean (map (\<lambda>lp. la * (lp theta0 + te)) log_prob)
       \<and> alpha_loss log_prob te theta0 la theta' = alpha_loss log_prob te theta0 la theta
       \<and> ((\<lambda>la. alpha_loss log_prob te theta0 la theta) has_real_derivative
            (- mean (map (\<lambda>lp. lp theta0 + te) log_prob))) (at la)
       \<and> (optimizer_log_alpha ag = None \<longrightarrow>
            (log_alpha (update N ag batch eps_next eps_new),
             alpha_optimizer (update N ag batch eps_next eps_new))
              = alpha_optimizer_step N
                  (\<lambda>la. - mean (map2 (\<lambda>row eps. la * (snd (new_action N ag (actor ag) row eps)
                                                        + target_entropy ag)) batch eps_new))
                  (log_alpha ag, alpha_optimizer ag))
       \<and> (optimizer_log_alpha ag \<noteq> None \<longrightarrow>
            log_alpha (update N ag batch eps_next eps_new) = log_alpha ag)
       \<and> actor (update (N\<lparr>alpha_optimizer_step := f\<rparr>) ag batch eps_next eps_new)
           = actor (update N ag batch eps_next eps_new)
       \<and> target_entropy (update N ag batch eps_next eps_new) = target_entropy ag
       \<and> target_entropy (SACAgent_init n_actions alpha_arg gamma_arg tau_arg max_size batch_size_arg
                            action_scale_arg action_bias_arg None actor_init critic_init)
           = - real_of_int n_actions
       \<and> target_entropy (SACAgent_init 2 alpha_arg gamma_arg tau_arg max_size batch_size_arg
                            action_scale_arg action_bias_arg None actor_init critic_init)
           = - 2"
proof -
  have a: "alpha_loss log_prob te theta0 la theta
           = - mean (map (\<lambda>lp. la * (lp theta0 + te)) log_prob)"
    by (rule alpha_loss_value)
  have b: "alpha_loss log_prob te theta0 la theta' = alpha_loss log_prob te theta0 la theta"
    by (simp add: alpha_loss_value)
  have c: "optimizer_log_alpha ag = None \<longrightarrow>
            (log_alpha (update N ag batch eps_next eps_new),
             alpha_optimizer (update N ag batch eps_next eps_new))
              = alpha_optimizer_step N
                  (\<lambda>la. - mean (map2 (\<lambda>row eps. la * (snd (new_action N ag (actor ag) row eps)
                                                        + target_entropy ag)) batch eps_new))
                  (log_alpha ag, alpha_optimizer ag)"
    using sac_update_log_alpha[OF assms] by blast
  have c': "optimizer_log_alpha ag \<noteq> None \<longrightarrow>
            log_alpha (update N ag batch eps_next eps_new) = log_alpha ag"
    using sac_update_log_alpha_rebound[OF assms] by blast
  have "fst (actor (update (N\<lparr>alpha_optimizer_step := f\<rparr>) ag batch eps_next eps_new),
             actor_optimizer (update (N\<lparr>alpha_optimizer_step := f\<rparr>) ag batch eps_next eps_new))
      = fst (actor (update N ag batch eps_next eps_new),
             actor_optimizer (update N ag batch eps_next eps_new))"
    unfolding sac_update_actor[OF assms]
    by (simp add: alpha_step_irrelevant alpha_step_irrelevant_loss)
  then have d: "actor (update (N\<lparr>alpha_optimizer_step := f\<rparr>) ag batch eps_next eps_new)
           = actor (update N ag batch eps_next eps_new)"
    by simp
  have e: "target_entropy (update N ag batch eps_next eps_new) = target_entropy ag"
    unfolding update_gate_open[OF assms]
    by (simp only: update_target_fields update_alpha_fields update_actor_fields
        update_critic_fields)
  have i: "target_entropy (SACAgent_init n alpha_arg gamma_arg tau_arg max_size batch_size_arg
                            action_scale_arg action_bias_arg None actor_init critic_init)
           = - real_of_int n" for n
    by (simp add: SACAgent_init_def)
  show ?thesis
    apply (intro conjI)
    subgoal by (rule a)
    subgoal by (rule b)
    subgoal by (rule alpha_loss_derivative)
    subgoal by (rule c)
    subgoal by (rule c')
    subgoal by (rule d)
    subgoal by (rule e)
    subgoal by (rule i)
    subgoal using i[of 2] by simp
    done
qed

text \<open>
  An instance of C8: an agent as constructed, and the same agent after a successful
  \<open>load_models\<close> with \<open>log_alpha = 1 / 2\<close>.
\<close>

theorem sac_alpha_loss_witness:
  "\<not> len_memory (memory ex_sac_agent) < batch_size ex_sac_agent
   \<and> optimizer_log_alpha ex_sac_agent = None
   \<and> \<not> len_memory (memory ex_sac_loaded) < batch_size ex_sac_loaded
   \<and> optimizer_log_alpha ex_sac_loaded \<noteq> None
   \<and> log_alpha ex_sac_loaded = 1 / 2
   \<and> alpha_loss [\<lambda>theta. sum_list (concat theta), \<lambda>theta. 3] (- 2) [[1]] 5 [[9]] = 0
   \<and> log_alpha (update ex_sac_networks ex_sac_agent [ex_row] [[0, 1]] [[0, 1]]) = 1
   \<and> log_alpha (update ex_sac_networks ex_sac_loaded [ex_row] [[0, 1]] [[0, 1]]) = 1 / 2
   \<and> target_entropy (update ex_sac_networks ex_sac_agent [ex_row] [[0, 1]] [[0, 1]]) = - 2"
proof -
  have h: "\<not> len_memory (memory ex_sac_agent) < batch_size ex_sac_agent"
    and o: "optimizer_log_alpha ex_sac_agent = None"
    by (simp_all add: ex_sac_agent_def SACAgent_init_def len_memory_def)
  have ld: "ex_sac_loaded =
      ex_sac_agent\<lparr>actor := [[1], [2]], critic := [[3], [4]], critic_target := [[3], [4]],
                   log_alpha := 1 / 2, optimizer_log_alpha := Some 0, alpha := exp (1 / 2)\<rparr>"
    unfolding ex_sac_loaded_def
    by (subst load_models_all_files[of _ "[[1], [2]]" "[[3], [4]]" "[[3], [4]]" "1 / 2"])
       (simp_all add: ex_sac_all_files_def ex_sac_agent_def SACAgent_init_def)
  have h': "\<not> len_memory (memory ex_sac_loaded) < batch_size ex_sac_loaded"
    and o': "optimizer_log_alpha ex_sac_loaded \<noteq> None"
    and l': "log_alpha ex_sac_loaded = 1 / 2"
    unfolding ld by (simp_all add: ex_sac_agent_def SACAgent_init_def len_memory_def)
  note inst = sac_alpha_loss[OF h, of "[\<lambda>theta. sum_list (concat theta), \<lambda>theta. 3]" "- 2" "[[1]]" 5
      "[[9]]" "[[9]]" ex_sac_networks "[ex_row]" "[[0, 1]]" "[[0, 1]]" "\<lambda>loss p. p" 2 0 0 0 0 0 0 0 "[]" "[]"]
  note inst' = sac_alpha_loss[OF h', of "[]" 0 "[]" 0 "[]" "[]" ex_sac_networks "[ex_row]" "[[0, 1]]"
      "[[0, 1]]" "\<lambda>loss p. p" 2 0 0 0 0 0 0 0 "[]" "[]"]
  have a: "alpha_loss [\<lambda>theta. sum_list (concat theta), \<lambda>theta. 3] (- 2) [[1]] 5 [[9]] = 0"
    using inst by (simp add: mean_def)
  have la: "log_alpha ex_sac_agent = 0" "target_entropy ex_sac_agent = - 2"
    by (simp_all add: ex_sac_agent_def SACAgent_init_def)
  from inst o have "fst (log_alpha (update ex_sac_networks ex_sac_agent [ex_row] [[0, 1]] [[0, 1]]),
          alpha_optimizer (update ex_sac_networks ex_sac_agent [ex_row] [[0, 1]] [[0, 1]])) = 1"
    by (simp add: ex_sac_networks_def la)
  then have b: "log_alpha (update ex_sac_networks ex_sac_agent [ex_row] [[0, 1]] [[0, 1]]) = 1"
    by simp
  from inst' o' l' have b': "log_alpha (update ex_sac_networks ex_sac_loaded [ex_row] [[0, 1]] [[0, 1]]) = 1 / 2"
    by simp
  from inst have c: "target_entropy (update ex_sac_networks ex_sac_agent [ex_row] [[0, 1]] [[0, 1]]) = - 2"
    by (simp add: la)
  show ?thesis
    apply (intro conjI)
    subgoal by (rule h)
    subgoal by (rule o)
    subgoal by (rule h')
    subgoal by (rule o')
    subgoal by (rule l')
    subgoal by (rule a)
    subgoal by (rule b)
    subgoal by (rule b')
    subgoal by (rule c)
    done
qed

text \<open>
  C9. A failing \<open>load_models\<close> call does not raise and prints its notice, but it does not
  always leave the agent as it was: the files are loaded one after the other inside one
  \<open>try\<close>, and the networks loaded before the failing file keep the loaded parameters.
  With a valid actor checkpoint and no critic checkpoint, a fresh agent ends with the
  checkpoint's actor, under the notice "Starting from scratch".
\<close>

theorem load_models_partial_load:
  "load_models ex_sac_fresh ex_sac_files = (load_failed, ex_sac_fresh\<lparr>actor := [[7], [8]]\<rparr>)
   \<and> actor ex_sac_fresh = [[1], [2]]
   \<and> actor (snd (load_models ex_sac_fresh ex_sac_files)) = [[7], [8]]
   \<and> snd (load_models ex_sac_fresh ex_sac_files) \<noteq> ex_sac_fresh"
proof -
  have a: "load_models ex_sac_fresh ex_sac_files = (load_failed, ex_sac_fresh\<lparr>actor := [[7], [8]]\<rparr>)"
    by (simp add: load_models_def ex_sac_files_def Let_def)
  have b: "actor ex_sac_fresh = [[1], [2]]"
    by (simp add: ex_sac_fresh_def SACAgent_init_def)
  have c: "actor (snd (load_models ex_sac_fresh ex_sac_files)) = [[7], [8]]"
    unfolding a by simp
  from b c have "actor (snd (load_models ex_sac_fresh ex_sac_files)) \<noteq> actor ex_sac_fresh"
    by simp
  then have d: "snd (load_models ex_sac_fresh ex_sac_files) \<noteq> ex_sac_fresh"
    by auto
  from a b c d show ?thesis by blast
qed

text \<open>
  C10. The entropy weight of the critic target and of the actor loss is
  \<open>exp log_alpha\<close>. The constructor sets \<open>log_alpha\<close> to zero, so the first weight is 1,
  whatever its \<open>alpha\<close> argument is: the argument (default 0.4) only sets the field
  \<open>alpha\<close>. Neither the critic target nor the actor loss reads that field, and an update
  that passes the gate returns the same agent for every value of it (the update overwrites
  the field with \<open>exp log_alpha\<close>); an update that does not pass the gate returns the agent
  as it is.
\<close>

theorem sac_entropy_weight_is_exp_log_alpha:
  "target_Q_row N ag row eps
     = reward row + (1 - of_bool (done_flag row)) * gamma ag *
         (min (fst (critic_forward N (critic_target ag) (next_state row) (fst (next_action N ag row eps))))
              (snd (critic_forward N (critic_target ag) (next_state row) (fst (next_action N ag row eps))))
          - exp (log_alpha ag) * snd (next_action N ag row eps))
   \<and> actor_loss N ag batch eps_new theta
     = mean (map2 (\<lambda>row eps.
          exp (log_alpha ag) * snd (new_action N ag theta row eps)
          - min (fst (critic_forward N (critic ag) (state row) (fst (new_action N ag theta row eps))))
                (snd (critic_forward N (critic ag) (state row) (fst (new_action N ag theta row eps)))))
        batch eps_new)
   \<and> log_alpha (SACAgent_init n_actions alpha_arg gamma_arg tau_arg max_size batch_size_arg
                   action_scale_arg action_bias_arg target_entropy_arg actor_init critic_init) = 0
   \<and> exp (log_alpha (SACAgent_init n_actions alpha_arg gamma_arg tau_arg max_size batch_size_arg
                   action_scale_arg action_bias_arg target_entropy_arg actor_init critic_init)) = 1
   \<and> SACAgent_init n_actions alpha_arg gamma_arg tau_arg max_size batch_size_arg
         action_scale_arg action_bias_arg target_entropy_arg actor_init critic_init
     = (SACAgent_init n_actions (2 / 5) gamma_arg tau_arg max_size batch_size_arg
         action_scale_arg action_bias_arg target_entropy_arg actor_init critic_init)\<lparr>alpha := alpha_arg\<rparr>
   \<and> target_Q_row N (ag\<lparr>alpha := a\<rparr>) row eps = target_Q_row N ag row eps
   \<and> actor_loss N (ag\<lparr>alpha := a\<rparr>) batch eps_new theta = actor_loss N ag batch eps_new theta
   \<and> update N (ag\<lparr>alpha := a\<rparr>) batch eps_next eps_new
     = (if len_memory (memory ag) < batch_size ag then ag\<lparr>alpha := a\<rparr>
        else update N ag batch eps_next eps_new)"
proof -
  have t: "target_Q_row N ag row eps
     = reward row + (1 - of_bool (done_flag row)) * gamma ag *
         (min (fst (critic_forward N (critic_target ag) (next_state row) (fst (next_action N ag row eps))))
              (snd (critic_forward N (critic_target ag) (next_state row) (fst (next_action N ag row eps))))
          - exp (log_alpha ag) * snd (next_action N ag row eps))"
    by (simp add: target_Q_row_def Let_def split: prod.splits)
  have l: "actor_loss N ag batch eps_new theta
     = mean (map2 (\<lambda>row eps.
          exp (log_alpha ag) * snd (new_action N ag theta row eps)
          - min (fst (critic_forward N (critic ag) (state row) (fst (new_action N ag theta row eps))))
                (snd (critic_forward N (critic ag) (state row) (fst (new_action N ag theta row eps)))))
        batch eps_new)"
    by (simp add: actor_loss_def Let_def case_prod_unfold)
  have i: "log_alpha (SACAgent_init n_actions alpha_arg gamma_arg tau_arg max_size batch_size_arg
                   action_scale_arg action_bias_arg target_entropy_arg actor_init critic_init) = 0"
    by (simp add: SACAgent_init_def Let_def)
  have s: "SACAgent_init n_actions alpha_arg gamma_arg tau_arg max_size batch_size_arg
         action_scale_arg action_bias_arg target_entropy_arg actor_init critic_init
     = (SACAgent_init n_actions (2 / 5) gamma_arg tau_arg max_size batch_size_arg
         action_scale_arg action_bias_arg target_entropy_arg actor_init critic_init)\<lparr>alpha := alpha_arg\<rparr>"
    by (simp add: SACAgent_init_def Let_def)
  show ?thesis
    apply (intro conjI)
    subgoal by (rule t)
    subgoal by (rule l)
    subgoal by (rule i)
    subgoal by (simp add: i)
    subgoal by (rule s)
    subgoal by (simp add: alpha_field_irrelevant)
    subgoal by (simp add: alpha_field_irrelevant)
    subgoal by (rule update_alpha_field)
    done
qed

end
